theory Spec2Isabelle
  imports Main "HOL-Library.Word" "HOL-Library.Signed_Division"
begin

unbundle bit_operations_syntax

section \<open>Machine integers and text formatting\<close>

type_synonym u32 = "32 word"
type_synonym u64 = "64 word"

text \<open>
  The builders write host source text through \<open>fmt\<close>-style format strings. The
  conversions they use are \<open>{}\<close> on an integer (decimal, with a minus sign for a
  negative signed value), \<open>{:X}\<close> (upper-case hexadecimal, no padding) and
  \<open>{:08X}\<close> (upper-case hexadecimal, zero-padded to eight digits).
\<close>

definition hex_digit :: "nat \<Rightarrow> char" where
  "hex_digit d = ''0123456789ABCDEF'' ! d"

fun to_hex :: "nat \<Rightarrow> string" where
  "to_hex n = (if n < 16 then [hex_digit n] else to_hex (n div 16) @ [hex_digit (n mod 16)])"

declare to_hex.simps [simp del]

definition to_hex8 :: "nat \<Rightarrow> string" where
  "to_hex8 n = (let s = to_hex n in replicate (8 - length s) CHR ''0'' @ s)"

definition dec_digit :: "nat \<Rightarrow> char" where
  "dec_digit d = ''0123456789'' ! d"

fun to_dec :: "nat \<Rightarrow> string" where
  "to_dec n = (if n < 10 then [dec_digit n] else to_dec (n div 10) @ [dec_digit (n mod 10)])"

declare to_dec.simps [simp del]

definition to_dec_int :: "int \<Rightarrow> string" where
  "to_dec_int i = (if i < 0 then ''-'' @ to_dec (nat (- i)) else to_dec (nat i))"

abbreviation tab :: string where
  "tab \<equiv> [CHR 0x09]"

abbreviation newline :: string where
  "newline \<equiv> [CHR 0x0A]"

abbreviation dquote :: string where
  "dquote \<equiv> [CHR 0x22]"

section \<open>Guest thread (kernel/xthread.cpp)\<close>

subsection \<open>Constructor: creation parameters\<close>




subsection \<open>Dynamic TLS slots\<close>

text \<open>
  Guest memory is a store from 32-bit guest addresses to the 32-bit values held there
  (\<open>load_and_swap\<close>/\<open>store_and_swap\<close> of a \<open>uint32_t\<close> at a translated address).
  The thread keeps \<open>tls_dynamic_address_\<close> and \<open>tls_total_size_\<close>.
\<close>

type_synonym guest_memory = "u32 \<Rightarrow> u32"

record TlsThread =
  tls_dynamic_address :: u32
  tls_total_size :: u32
  memory :: guest_memory

text \<open>\<open>GetTLSValue\<close>: \<open>None\<close> is the \<open>false\<close> return, \<open>Some v\<close> is \<open>true\<close> with \<open>*value_out = v\<close>.\<close>

definition GetTLSValue :: "TlsThread \<Rightarrow> u32 \<Rightarrow> u32 option" where
  "GetTLSValue t slot =
     (if slot * 4 > tls_total_size t then None
      else Some (memory t (tls_dynamic_address t + slot * 4)))"

text \<open>\<open>SetTLSValue\<close>: \<open>None\<close> is the \<open>false\<close> return, \<open>Some t'\<close> is \<open>true\<close> with the store done.\<close>

definition SetTLSValue :: "TlsThread \<Rightarrow> u32 \<Rightarrow> u32 \<Rightarrow> TlsThread option" where
  "SetTLSValue t slot v =
     (if slot * 4 \<ge> tls_total_size t then None
      else Some (t\<lparr> memory := (memory t)(tls_dynamic_address t + slot * 4 := v) \<rparr>))"

text \<open>The bounds check the two accessors are said to share: the byte offset lies in the region.\<close>

definition tls_slot_in_range :: "TlsThread \<Rightarrow> u32 \<Rightarrow> bool" where
  "tls_slot_in_range t slot \<longleftrightarrow> slot * 4 < tls_total_size t"

subsection \<open>Delay\<close>

text \<open>
  How a host sleep ended. \<open>Delay\<close> tells \<open>kAlerted\<close> from everything else; the
  results other than the two it names are \<open>kOther\<close>.
\<close>

datatype SleepResult = kSuccess | kAlerted | kOther

datatype X_STATUS = X_STATUS_SUCCESS | X_STATUS_USER_APC

text \<open>
  What one call of \<open>XThread::Delay\<close> does: whether \<open>assert_always()\<close> was reached,
  which sleep primitive was called, with how many milliseconds, and the status returned.
\<close>

record DelayOutcome =
  assert_reached :: bool
  slept_alertable :: bool
  slept_ms :: u32
  status :: X_STATUS

text \<open>
  \<open>timeout_ms\<close> before scaling. The interval is read as \<open>int64_t\<close>; the relative form
  computes \<open>uint32_t(-timeout_ticks / 10000)\<close> with C++ truncating division.
\<close>

definition Delay_timeout_ms :: "u64 \<Rightarrow> bool \<times> u32" where
  "Delay_timeout_ms interval =
     (if sint interval > 0 then (True, 0)
      else if sint interval < 0 then (False, word_of_int (sint (- interval) sdiv 10000))
      else (False, 0))"

text \<open>
  \<open>Clock::ScaleGuestDurationMillis\<close> and the host sleep primitives are defined outside
  the files at hand; they are parameters. \<open>AlertableSleep\<close> reports how the sleep ended.
\<close>

definition Delay :: "(u32 \<Rightarrow> u32) \<Rightarrow> (u32 \<Rightarrow> SleepResult) \<Rightarrow> u32 \<Rightarrow> u32 \<Rightarrow> u64 \<Rightarrow> DelayOutcome" where
  "Delay ScaleGuestDurationMillis AlertableSleep processor_mode alertable interval =
     (let (asserted, timeout_ms0) = Delay_timeout_ms interval;
          timeout_ms = ScaleGuestDurationMillis timeout_ms0
      in if alertable \<noteq> 0 then
           (case AlertableSleep timeout_ms of
              kSuccess \<Rightarrow> \<lparr> assert_reached = asserted, slept_alertable = True,
                            slept_ms = timeout_ms, status = X_STATUS_SUCCESS \<rparr>
            | kAlerted \<Rightarrow> \<lparr> assert_reached = asserted, slept_alertable = True,
                            slept_ms = timeout_ms, status = X_STATUS_USER_APC \<rparr>
            | kOther \<Rightarrow> \<lparr> assert_reached = asserted, slept_alertable = True,
                          slept_ms = timeout_ms, status = X_STATUS_SUCCESS \<rparr>)
         else \<lparr> assert_reached = asserted, slept_alertable = False,
                 slept_ms = timeout_ms, status = X_STATUS_SUCCESS \<rparr>)"

section \<open>Code generator: builder context\<close>

text \<open>
  A decoded instruction: the mnemonic (\<open>insn.opcode->name\<close>) and the operand array
  (\<open>uint32_t operands[]\<close>). Operands past the ones the decoder filled read as 0.
\<close>

record ppc_insn =
  opcode_name :: string
  operands :: "u32 list"

definition operand :: "ppc_insn \<Rightarrow> nat \<Rightarrow> u32" where
  "operand i k = (if k < length (operands i) then operands i ! k else 0)"

record JumpTable =
  bctrAddress :: u32
  indexRegister :: u32
  targets :: "u32 list"

record FunctionNode =
  fn_base :: u32
  fn_end :: u32
  jumpTables :: "JumpTable list"

record RecompilerConfig =
  skipLr :: bool
  nonArgumentRegistersAsLocalVariables :: bool
  nonVolatileRegistersAsLocalVariables :: bool
  crRegistersAsLocalVariables :: bool
  ctrAsLocalVariable :: bool
  xerAsLocalVariable :: bool

text \<open>
  \<open>RecompilerLocalVariables\<close>: which registers were promoted to function-local
  storage, and the per-register "is MMIO base" flag the builders set and clear
  (\<open>set_mmio_base\<close>, \<open>clear_mmio_base\<close>, \<open>is_mmio_base\<close>).
\<close>

record LocalVariables =
  local_r :: "nat \<Rightarrow> bool"
  local_cr :: "nat \<Rightarrow> bool"
  local_ctr :: bool
  local_xer :: bool
  mmio_base :: "nat \<Rightarrow> bool"

definition is_mmio_base :: "LocalVariables \<Rightarrow> nat \<Rightarrow> bool" where
  "is_mmio_base l reg = mmio_base l reg"

definition set_mmio_base :: "LocalVariables \<Rightarrow> nat \<Rightarrow> LocalVariables" where
  "set_mmio_base l reg = l\<lparr> mmio_base := (mmio_base l)(reg := True) \<rparr>"

definition clear_mmio_base :: "LocalVariables \<Rightarrow> nat \<Rightarrow> LocalVariables" where
  "clear_mmio_base l reg = l\<lparr> mmio_base := (mmio_base l)(reg := False) \<rparr>"

datatype CSRState = CSR_Unknown | CSR_FPU | CSR_VMX

datatype TargetKind = InternalLabel | Function | Import | Unknown

datatype LogLevel = LogWarn | LogError

text \<open>
  The builder context: the instruction, the guest PC (\<open>base\<close>), the function node, the
  configuration, the bound switch table (\<open>None\<close> is the \<open>end()\<close> iterator), the CSR
  state, the local-variable flags, whether the next guest word is \<open>eieio\<close>, the output
  text written so far, and what was sent to the log.
\<close>

record BuilderContext =
  insn :: ppc_insn
  base :: u32
  fn :: FunctionNode
  config :: RecompilerConfig
  switchTable :: "JumpTable option"
  csrState :: CSRState
  locals :: LocalVariables
  next_is_eieio :: bool
  out :: string
  logged :: "(LogLevel \<times> string) list"

definition print :: "BuilderContext \<Rightarrow> string \<Rightarrow> BuilderContext" where
  "print ctx s = ctx\<lparr> out := out ctx @ s \<rparr>"

definition println :: "BuilderContext \<Rightarrow> string \<Rightarrow> BuilderContext" where
  "println ctx s = ctx\<lparr> out := out ctx @ s @ newline \<rparr>"

definition log_msg :: "BuilderContext \<Rightarrow> LogLevel \<Rightarrow> string \<Rightarrow> BuilderContext" where
  "log_msg ctx lvl s = ctx\<lparr> logged := logged ctx @ [(lvl, s)] \<rparr>"

definition reset_switch_table :: "BuilderContext \<Rightarrow> BuilderContext" where
  "reset_switch_table ctx = ctx\<lparr> switchTable := None \<rparr>"

text \<open>
  Register names. \<open>ctx.r\<close>, \<open>ctx.cr\<close>, \<open>ctx.ctr\<close> and \<open>ctx.xer\<close> follow the lambdas
  \<open>r\<close>, \<open>cr\<close>, \<open>ctr\<close> and \<open>xer\<close> of \<open>Recompiler::recompile\<close>: a register promoted
  to a local variable is named without the \<open>ctx.\<close> prefix and flagged in the locals.
\<close>

definition r_is_local :: "RecompilerConfig \<Rightarrow> nat \<Rightarrow> bool" where
  "r_is_local cfg index \<longleftrightarrow>
     (nonArgumentRegistersAsLocalVariables cfg \<and>
        (index = 0 \<or> index = 2 \<or> index = 11 \<or> index = 12)) \<or>
     (nonVolatileRegistersAsLocalVariables cfg \<and> index \<ge> 14)"

definition r_name :: "RecompilerConfig \<Rightarrow> nat \<Rightarrow> string" where
  "r_name cfg index =
     (if r_is_local cfg index then ''r'' @ to_dec index else ''ctx.r'' @ to_dec index)"

definition r :: "BuilderContext \<Rightarrow> nat \<Rightarrow> string \<times> BuilderContext" where
  "r ctx index =
     (if r_is_local (config ctx) index
      then (''r'' @ to_dec index,
            ctx\<lparr> locals := (locals ctx)\<lparr> local_r := (local_r (locals ctx))(index := True) \<rparr> \<rparr>)
      else (''ctx.r'' @ to_dec index, ctx))"

definition cr_name :: "RecompilerConfig \<Rightarrow> nat \<Rightarrow> string" where
  "cr_name cfg index =
     (if crRegistersAsLocalVariables cfg then ''cr'' @ to_dec index else ''ctx.cr'' @ to_dec index)"

definition cr :: "BuilderContext \<Rightarrow> nat \<Rightarrow> string \<times> BuilderContext" where
  "cr ctx index =
     (if crRegistersAsLocalVariables (config ctx)
      then (''cr'' @ to_dec index,
            ctx\<lparr> locals := (locals ctx)\<lparr> local_cr := (local_cr (locals ctx))(index := True) \<rparr> \<rparr>)
      else (''ctx.cr'' @ to_dec index, ctx))"

definition ctr :: "BuilderContext \<Rightarrow> string \<times> BuilderContext" where
  "ctr ctx =
     (if ctrAsLocalVariable (config ctx)
      then (''ctr'', ctx\<lparr> locals := (locals ctx)\<lparr> local_ctr := True \<rparr> \<rparr>)
      else (''ctx.ctr'', ctx))"

definition xer :: "BuilderContext \<Rightarrow> string \<times> BuilderContext" where
  "xer ctx =
     (if xerAsLocalVariable (config ctx)
      then (''xer'', ctx\<lparr> locals := (locals ctx)\<lparr> local_xer := True \<rparr> \<rparr>)
      else (''ctx.xer'', ctx))"

definition ctr_name :: "RecompilerConfig \<Rightarrow> string" where
  "ctr_name cfg = (if ctrAsLocalVariable cfg then ''ctr'' else ''ctx.ctr'')"

section \<open>Code generator: helpers (builders/helpers.h)\<close>

definition compute_mask :: "u32 \<Rightarrow> u32 \<Rightarrow> u64" where
  "compute_mask mstart0 mstop0 =
     (let mstart = mstart0 AND 0x3F;
          mstop = mstop0 AND 0x3F;
          v = drop_bit (unat mstart) (- 1 :: u64) XOR
                (if mstop \<ge> 63 then 0 else drop_bit (unat (mstop + 1)) (- 1 :: u64))
      in if mstart \<le> mstop then v else NOT v)"

definition crBitName :: "u32 \<Rightarrow> string" where
  "crBitName bi = [''lt'', ''gt'', ''eq'', ''so''] ! unat (bi AND 3)"

definition isRecordForm :: "ppc_insn \<Rightarrow> bool" where
  "isRecordForm i \<longleftrightarrow> CHR ''.'' \<in> set (opcode_name i)"

definition emitRecordFormCompare :: "BuilderContext \<Rightarrow> BuilderContext" where
  "emitRecordFormCompare ctx =
     (if isRecordForm (insn ctx) then
        (let (c0, ctx) = cr ctx 0;
             (r0, ctx) = r ctx (unat (operand (insn ctx) 0));
             (x, ctx) = xer ctx
         in println ctx (tab @ c0 @ ''.compare<int32_t>('' @ r0 @ ''.s32, 0, '' @ x @ '');''))
      else ctx)"

definition emitCRBitOperation :: "BuilderContext \<Rightarrow> string \<Rightarrow> bool \<Rightarrow> bool \<Rightarrow> bool \<Rightarrow> BuilderContext" where
  "emitCRBitOperation ctx opr invertA invertB invertResult =
     (let crD = operand (insn ctx) 0;
          crA = operand (insn ctx) 1;
          crB = operand (insn ctx) 2;
          crField_D = crD div 4;
          crBit_D = crD mod 4;
          crField_A = crA div 4;
          crBit_A = crA mod 4;
          crField_B = crB div 4;
          crBit_B = crB mod 4;
          (fa, ctx) = cr ctx (unat crField_A);
          aExpr = fa @ ''.'' @ crBitName crBit_A;
          (fb, ctx) = cr ctx (unat crField_B);
          bExpr = fb @ ''.'' @ crBitName crBit_B;
          aExpr = (if invertA then ''!('' @ aExpr @ '')'' else aExpr);
          bExpr = (if invertB then ''!('' @ bExpr @ '')'' else bExpr);
          expr = aExpr @ '' '' @ opr @ '' '' @ bExpr;
          expr = (if invertResult then ''!('' @ expr @ '')'' else expr);
          (fd, ctx) = cr ctx (unat crField_D)
      in println ctx (tab @ fd @ ''.'' @ crBitName crBit_D @ '' = '' @ expr @ '';''))"

definition isMMIOUpperBits :: "u32 \<Rightarrow> bool" where
  "isMMIOUpperBits imm \<longleftrightarrow> (imm \<ge> 0x7FC8 \<and> imm \<le> 0x7FCF) \<or> imm = 0x7FEA"

definition emitBranchWithBoundsCheck :: "BuilderContext \<Rightarrow> u32 \<Rightarrow> string \<Rightarrow> string \<Rightarrow> BuilderContext" where
  "emitBranchWithBoundsCheck ctx target condition instr_name =
     (if target < fn_base (fn ctx) \<or> target \<ge> fn_end (fn ctx) then
        (let ctx = log_msg ctx LogWarn
                     (instr_name @ '' at '' @ to_hex (unat (base ctx)) @
                      '' branches outside function to '' @ to_hex (unat target))
         in println ctx (tab @ ''if ('' @ condition @ '') { /* branch to 0x'' @
                         to_hex (unat target) @ '' outside function */ return; }''))
      else println ctx (tab @ ''if ('' @ condition @ '') goto loc_'' @ to_hex (unat target) @ '';''))"

section \<open>Code generator: logical builders (builders/logical.cpp)\<close>

type_synonym Builder = "BuilderContext \<Rightarrow> bool \<times> BuilderContext"

definition build_rlwinm :: Builder where
  "build_rlwinm ctx =
     (let (rd, ctx) = r ctx (unat (operand (insn ctx) 0));
          (rs1, ctx) = r ctx (unat (operand (insn ctx) 1));
          (rs2, ctx) = r ctx (unat (operand (insn ctx) 1));
          ctx = println ctx
                  (tab @ rd @ ''.u64 = __builtin_rotateleft64('' @ rs1 @ ''.u32 | ('' @ rs2 @
                   ''.u64 << 32), '' @ to_dec (unat (operand (insn ctx) 2)) @ '') & 0x'' @
                   to_hex (unat (compute_mask (operand (insn ctx) 3 + 32)
                                              (operand (insn ctx) 4 + 32))) @ '';'')
      in (True, emitRecordFormCompare ctx))"

definition build_crand :: Builder where
  "build_crand ctx = (True, emitCRBitOperation ctx ''&'' False False False)"

definition build_crandc :: Builder where
  "build_crandc ctx = (True, emitCRBitOperation ctx ''&'' False True False)"

definition build_creqv :: Builder where
  "build_creqv ctx = (True, emitCRBitOperation ctx ''='' False False False)"

definition build_crnand :: Builder where
  "build_crnand ctx = (True, emitCRBitOperation ctx ''&'' False False True)"

definition build_crnor :: Builder where
  "build_crnor ctx = (True, emitCRBitOperation ctx ''|'' False False True)"

definition build_cror :: Builder where
  "build_cror ctx = (True, emitCRBitOperation ctx ''|'' False False False)"

definition build_crorc :: Builder where
  "build_crorc ctx = (True, emitCRBitOperation ctx ''|'' False True False)"

section \<open>Code generator: control flow builders (builders/control_flow.cpp)\<close>

text \<open>
  Two collaborators of the branch builders are defined outside the files at hand and
  are parameters: \<open>ctx.graph().classifyTarget(target, base, is_call)\<close> and
  \<open>ctx.emit_function_call(target)\<close>.
\<close>

record Externals =
  classifyTarget :: "u32 \<Rightarrow> u32 \<Rightarrow> bool \<Rightarrow> TargetKind"
  emit_function_call :: "BuilderContext \<Rightarrow> u32 \<Rightarrow> BuilderContext"

definition build_b :: "Externals \<Rightarrow> Builder" where
  "build_b ext ctx =
     (let target = operand (insn ctx) 0;
          kind = classifyTarget ext target (base ctx) False
      in (True,
          case kind of
            InternalLabel \<Rightarrow> println ctx (tab @ ''goto loc_'' @ to_hex (unat target) @ '';'')
          | Function \<Rightarrow> println (emit_function_call ext ctx target) (tab @ ''return;'')
          | Import \<Rightarrow> println (emit_function_call ext ctx target) (tab @ ''return;'')
          | Unknown \<Rightarrow>
              if target \<ge> fn_base (fn ctx) \<and> target < fn_end (fn ctx)
              then println ctx (tab @ ''goto loc_'' @ to_hex (unat target) @ '';'')
              else (let ctx = log_msg ctx LogWarn
                                (''Unresolved b target 0x'' @ to_hex8 (unat target) @
                                 '' from 0x'' @ to_hex8 (unat (base ctx)));
                        ctx = emit_function_call ext ctx target
                    in println ctx (tab @ ''return;''))))"

definition build_bl :: "Externals \<Rightarrow> Builder" where
  "build_bl ext ctx =
     (let target = operand (insn ctx) 0;
          ctx = (if \<not> skipLr (config ctx)
                 then println ctx (tab @ ''ctx.lr = 0x'' @ to_hex (unat (base ctx + 4)) @ '';'')
                 else ctx);
          kind = classifyTarget ext target (base ctx) True
      in (True,
          case kind of
            InternalLabel \<Rightarrow> println ctx (tab @ ''goto loc_'' @ to_hex (unat target) @ '';'')
          | Function \<Rightarrow> (emit_function_call ext ctx target)\<lparr> csrState := CSR_Unknown \<rparr>
          | Import \<Rightarrow> (emit_function_call ext ctx target)\<lparr> csrState := CSR_Unknown \<rparr>
          | Unknown \<Rightarrow>
              (let ctx = log_msg ctx LogError
                           (''Unresolved bl target 0x'' @ to_hex8 (unat target) @
                            '' from 0x'' @ to_hex8 (unat (base ctx)));
                   ctx = println ctx (tab @ ''// ERROR: unresolved bl target 0x'' @
                                      to_hex8 (unat target))
               in println ctx (tab @ ''REX_FATAL('' @ dquote @ ''Unresolved call from 0x'' @
                               to_hex8 (unat (base ctx)) @ '' to 0x'' @ to_hex8 (unat target) @
                               dquote @ '');''))))"

definition decrement_ctr :: "BuilderContext \<Rightarrow> BuilderContext" where
  "decrement_ctr ctx = (let (c, ctx) = ctr ctx in println ctx (tab @ ''--'' @ c @ ''.u64;''))"

definition build_bdz :: Builder where
  "build_bdz ctx =
     (let ctx = decrement_ctr ctx;
          (c, ctx) = ctr ctx
      in (True, emitBranchWithBoundsCheck ctx (operand (insn ctx) 0) (c @ ''.u32 == 0'') ''bdz''))"

definition build_bdnz :: Builder where
  "build_bdnz ctx =
     (let ctx = decrement_ctr ctx;
          (c, ctx) = ctr ctx
      in (True, emitBranchWithBoundsCheck ctx (operand (insn ctx) 0) (c @ ''.u32 != 0'') ''bdnz''))"

definition build_bdnzf :: Builder where
  "build_bdnzf ctx =
     (let bit = crBitName (operand (insn ctx) 0);
          ctx = decrement_ctr ctx;
          (c, ctx) = ctr ctx;
          (f, ctx) = cr ctx (unat (operand (insn ctx) 0 div 4))
      in (True, emitBranchWithBoundsCheck ctx (operand (insn ctx) 1)
                  (c @ ''.u32 != 0 && !'' @ f @ ''.'' @ bit) ''bdnzf''))"

definition build_bdnzt :: Builder where
  "build_bdnzt ctx =
     (let bit = crBitName (operand (insn ctx) 0);
          ctx = decrement_ctr ctx;
          (c, ctx) = ctr ctx;
          (f, ctx) = cr ctx (unat (operand (insn ctx) 0 div 4))
      in (True, emitBranchWithBoundsCheck ctx (operand (insn ctx) 1)
                  (c @ ''.u32 != 0 && '' @ f @ ''.'' @ bit) ''bdnzt''))"

definition build_bdzf :: Builder where
  "build_bdzf ctx =
     (let bit = crBitName (operand (insn ctx) 0);
          ctx = decrement_ctr ctx;
          (c, ctx) = ctr ctx;
          (f, ctx) = cr ctx (unat (operand (insn ctx) 0 div 4))
      in (True, emitBranchWithBoundsCheck ctx (operand (insn ctx) 1)
                  (c @ ''.u32 == 0 && !'' @ f @ ''.'' @ bit) ''bdzf''))"

text \<open>The loop of \<open>build_bctr\<close> over \<open>jt->targets\<close>, from index \<open>i\<close> on.\<close>

fun emit_switch_cases :: "BuilderContext \<Rightarrow> nat \<Rightarrow> u32 list \<Rightarrow> BuilderContext" where
  "emit_switch_cases ctx i [] = ctx"
| "emit_switch_cases ctx i (label # rest) =
     (let ctx = println ctx (tab @ ''case '' @ to_dec i @ '':'');
          ctx = (if label < fn_base (fn ctx) \<or> label \<ge> fn_end (fn ctx) then
                   (let ctx = log_msg ctx LogError
                                (''Jump target 0x'' @ to_hex8 (unat label) @
                                 '' outside function bounds at bctr 0x'' @ to_hex8 (unat (base ctx)));
                        ctx = println ctx (tab @ tab @ ''// ERROR: jump target 0x'' @
                                           to_hex8 (unat label) @ '' outside function bounds'')
                    in println ctx (tab @ tab @ ''return;''))
                 else println ctx (tab @ tab @ ''goto loc_'' @ to_hex (unat label) @ '';''))
      in emit_switch_cases ctx (Suc i) rest)"

text \<open>The jump table of a \<open>bctr\<close>: the configured one first, else the first auto-detected
  table whose \<open>bctrAddress\<close> is the current PC.\<close>

definition bctr_jump_table :: "BuilderContext \<Rightarrow> JumpTable option" where
  "bctr_jump_table ctx =
     (case switchTable ctx of
        Some jt \<Rightarrow> Some jt
      | None \<Rightarrow> find (\<lambda>autoJt. bctrAddress autoJt = base ctx) (jumpTables (fn ctx)))"

definition build_bctr :: Builder where
  "build_bctr ctx =
     (case bctr_jump_table ctx of
        Some jt \<Rightarrow>
          (let (ri, ctx) = r ctx (unat (indexRegister jt));
               ctx = println ctx (tab @ ''switch ('' @ ri @ ''.u32) {'');
               ctx = emit_switch_cases ctx 0 (targets jt);
               ctx = println ctx (tab @ ''default:'');
               ctx = println ctx (tab @ tab @ ''__builtin_trap(); // Switch case out of range'');
               ctx = println ctx (tab @ ''}'')
           in (True, reset_switch_table ctx))
      | None \<Rightarrow>
          (let (c, ctx) = ctr ctx;
               ctx = println ctx (tab @ ''PPC_CALL_INDIRECT_FUNC('' @ c @ ''.u32);'')
           in (True, println ctx (tab @ ''return;''))))"

section \<open>Code generator: memory builders (builders/memory.cpp)\<close>

definition build_lis :: Builder where
  "build_lis ctx =
     (let imm = operand (insn ctx) 1;
          dest_reg = unat (operand (insn ctx) 0);
          (rd, ctx) = r ctx dest_reg;
          ctx = println ctx (tab @ rd @ ''.s64 = '' @ to_dec_int (sint (push_bit 16 imm)) @ '';'')
      in (True,
          if isMMIOUpperBits imm
          then ctx\<lparr> locals := set_mmio_base (locals ctx) dest_reg \<rparr>
          else ctx\<lparr> locals := clear_mmio_base (locals ctx) dest_reg \<rparr>))"

text \<open>
  Modelled from the spec: \<open>BuilderContext::mmio_check_d_form\<close>, whose body is not
  among the files at hand. The spec: it "returns true when the base register is
  currently flagged as an MMIO base and, for eieio-guarded sequences, when the
  following instruction is an eieio". The base register of a D-form access is
  operand 2.
\<close>

definition mmio_check_d_form :: "BuilderContext \<Rightarrow> bool" where
  "mmio_check_d_form ctx \<longleftrightarrow>
     is_mmio_base (locals ctx) (unat (operand (insn ctx) 2)) \<or> next_is_eieio ctx"

definition getStoreMacro :: "BuilderContext \<Rightarrow> string \<Rightarrow> string \<Rightarrow> string" where
  "getStoreMacro ctx normal_macro mmio_macro =
     (if mmio_check_d_form ctx then mmio_macro else normal_macro)"

text \<open>
  Modelled from the spec: \<open>BuilderContext::emit_store_d_form(macro, field, flag)\<close>,
  whose body is not among the files at hand; every store builder passes \<open>true\<close> as
  the flag. The spec: stores through addresses identified as MMIO route through the
  \<open>PPC_MM_*\<close> variant (\<open>PPC_MM_STORE_U32\<close> for \<open>PPC_STORE_U32\<close>); the D-form
  address is \<open>rA.u32 + disp\<close>, the base omitted when \<open>rA == 0\<close>. The text follows
  the D-form store \<open>build_stfd\<close> of memory.cpp, which writes the same shape inline.
\<close>

definition mmio_store_macro :: "string \<Rightarrow> string" where
  "mmio_store_macro store_macro = ''PPC_MM_'' @ drop 4 store_macro"

definition emit_store_d_form :: "BuilderContext \<Rightarrow> string \<Rightarrow> string \<Rightarrow> bool \<Rightarrow> BuilderContext" where
  "emit_store_d_form ctx store_macro field check_mmio =
     (let macro_used = (if check_mmio
                        then getStoreMacro ctx store_macro (mmio_store_macro store_macro)
                        else store_macro);
          ctx = print ctx (tab @ macro_used @ ''('');
          ctx = (if operand (insn ctx) 2 \<noteq> 0
                 then (let (ra, ctx) = r ctx (unat (operand (insn ctx) 2))
                       in print ctx (ra @ ''.u32 + ''))
                 else ctx);
          (rs, ctx) = r ctx (unat (operand (insn ctx) 0))
      in println ctx (to_dec_int (sint (operand (insn ctx) 1)) @ '', '' @ rs @ ''.'' @ field @ '');''))"

definition build_stw :: Builder where
  "build_stw ctx = (True, emit_store_d_form ctx ''PPC_STORE_U32'' ''u32'' True)"

section \<open>Code generator: dispatch (instruction_dispatch.cpp)\<close>

text \<open>
  The static table maps an opcode id to its builder; it is a parameter here, so that
  what is proved about a missing entry holds for the table of the source and for any
  other.
\<close>

definition DispatchInstruction :: "(int \<rightharpoonup> Builder) \<Rightarrow> int \<Rightarrow> Builder" where
  "DispatchInstruction table opcode_id ctx =
     (case table opcode_id of
        Some builder \<Rightarrow> builder ctx
      | None \<Rightarrow>
          (let ctx = log_msg ctx LogWarn
                       (''Unimplemented: '' @ opcode_name (insn ctx) @ '' at 0x'' @
                        to_hex8 (unat (base ctx)));
               ctx = println ctx (tab @ ''// UNIMPLEMENTED: '' @ opcode_name (insn ctx));
               ctx = println ctx (tab @ ''PPC_UNIMPLEMENTED(0x'' @ to_hex (unat (base ctx)) @
                                  '', '' @ dquote @ opcode_name (insn ctx) @ dquote @ '');'')
           in (True, ctx)))"

section \<open>Emitted host statements: syntax, text and meaning\<close>

text \<open>
  The builders emit C++ statements over the guest register file. The statement shapes
  the theorems below talk about get a syntax tree, a rendering (the exact text) and a
  meaning, so that "the emitted code computes ..." is a statement about text that a
  builder really wrote.

  A CR bit expression is a bit \<open>crN.lt|gt|eq|so\<close>, a negation \<open>!(e)\<close> or a binary
  \<open>e1 op e2\<close> with the operator as written. In C++ \<open>&\<close> and \<open>|\<close> on the 0/1 flags are
  conjunction and disjunction; \<open>=\<close> is assignment: it needs an lvalue on its left,
  stores the right-hand value there, and yields that value.
\<close>

datatype cr_expr =
  CRBit nat nat
| CRNot cr_expr
| CRBin cr_expr string cr_expr

fun render_cr_expr :: "RecompilerConfig \<Rightarrow> cr_expr \<Rightarrow> string" where
  "render_cr_expr cfg (CRBit f b) = cr_name cfg f @ ''.'' @ crBitName (of_nat b)"
| "render_cr_expr cfg (CRNot e) = ''!('' @ render_cr_expr cfg e @ '')''"
| "render_cr_expr cfg (CRBin a opr b) =
     render_cr_expr cfg a @ '' '' @ opr @ '' '' @ render_cr_expr cfg b"

datatype case_action = GotoLabel u32 | ReturnOutside u32

datatype host_stmt =
  SetCRBit nat nat cr_expr
| RotlMask64 nat nat nat u64
| Switch nat "(nat \<times> case_action) list"

fun render_case :: "nat \<times> case_action \<Rightarrow> string" where
  "render_case (i, GotoLabel t) =
     tab @ ''case '' @ to_dec i @ '':'' @ newline @
     tab @ tab @ ''goto loc_'' @ to_hex (unat t) @ '';'' @ newline"
| "render_case (i, ReturnOutside t) =
     tab @ ''case '' @ to_dec i @ '':'' @ newline @
     tab @ tab @ ''// ERROR: jump target 0x'' @ to_hex8 (unat t) @ '' outside function bounds'' @ newline @
     tab @ tab @ ''return;'' @ newline"

fun render_stmt :: "RecompilerConfig \<Rightarrow> host_stmt \<Rightarrow> string" where
  "render_stmt cfg (SetCRBit f b e) =
     tab @ cr_name cfg f @ ''.'' @ crBitName (of_nat b) @ '' = '' @ render_cr_expr cfg e @ '';'' @ newline"
| "render_stmt cfg (RotlMask64 d s sh m) =
     tab @ r_name cfg d @ ''.u64 = __builtin_rotateleft64('' @ r_name cfg s @ ''.u32 | ('' @
     r_name cfg s @ ''.u64 << 32), '' @ to_dec sh @ '') & 0x'' @ to_hex (unat m) @ '';'' @ newline"
| "render_stmt cfg (Switch reg cases) =
     tab @ ''switch ('' @ r_name cfg reg @ ''.u32) {'' @ newline @
     concat (map render_case cases) @
     tab @ ''default:'' @ newline @
     tab @ tab @ ''__builtin_trap(); // Switch case out of range'' @ newline @
     tab @ ''}'' @ newline"

text \<open>The part of the guest register file these statements touch.\<close>

record host_state =
  gpr :: "nat \<Rightarrow> u64"
  crf :: "nat \<Rightarrow> nat \<Rightarrow> bool"

fun eval_cr_expr :: "cr_expr \<Rightarrow> host_state \<Rightarrow> (bool \<times> host_state) option" where
  "eval_cr_expr (CRBit f b) s = Some (crf s f b, s)"
| "eval_cr_expr (CRNot e) s =
     (case eval_cr_expr e s of None \<Rightarrow> None | Some (v, s1) \<Rightarrow> Some (\<not> v, s1))"
| "eval_cr_expr (CRBin a opr b) s =
     (if opr = ''&'' \<or> opr = ''|'' then
        (case eval_cr_expr a s of
           None \<Rightarrow> None
         | Some (va, s1) \<Rightarrow>
             (case eval_cr_expr b s1 of
                None \<Rightarrow> None
              | Some (vb, s2) \<Rightarrow> Some (if opr = ''&'' then va \<and> vb else va \<or> vb, s2)))
      else if opr = ''='' then
        (case a of
           CRBit f bt \<Rightarrow>
             (case eval_cr_expr b s of
                None \<Rightarrow> None
              | Some (vb, s1) \<Rightarrow> Some (vb, s1\<lparr> crf := (crf s1)(f := (crf s1 f)(bt := vb)) \<rparr>))
         | _ \<Rightarrow> None)
      else None)"

text \<open>
  What a statement does: go on with a new state, jump to a label of the function,
  return from the function, trap, or fail to compile.
\<close>

datatype outcome = Continue host_state | Jump u32 | Returned | Trapped | IllFormed

fun exec_stmt :: "host_stmt \<Rightarrow> host_state \<Rightarrow> outcome" where
  "exec_stmt (SetCRBit f b e) s =
     (case eval_cr_expr e s of
        None \<Rightarrow> IllFormed
      | Some (v, s1) \<Rightarrow> Continue (s1\<lparr> crf := (crf s1)(f := (crf s1 f)(b := v)) \<rparr>))"
| "exec_stmt (RotlMask64 d src sh m) s =
     Continue (s\<lparr> gpr := (gpr s)(d :=
        word_rotl sh (ucast (ucast (gpr s src) :: u32) OR push_bit 32 (gpr s src)) AND m) \<rparr>)"
| "exec_stmt (Switch reg cases) s =
     (case map_of cases (unat (ucast (gpr s reg) :: u32)) of
        Some (GotoLabel t) \<Rightarrow> Jump t
      | Some (ReturnOutside t) \<Rightarrow> Returned
      | None \<Rightarrow> Trapped)"

text \<open>The value a register holds once a statement has run to completion.\<close>

definition result_gpr :: "outcome \<Rightarrow> nat \<Rightarrow> u64 option" where
  "result_gpr oc n = (case oc of Continue s \<Rightarrow> Some (gpr s n) | _ \<Rightarrow> None)"

text \<open>
  A CR bit by its global index \<open>i\<close> (0..31): field \<open>i / 4\<close>, bit \<open>i mod 4\<close> in the
  order lt, gt, eq, so.
\<close>

definition read_cr_bit :: "host_state \<Rightarrow> u32 \<Rightarrow> bool" where
  "read_cr_bit s i = crf s (unat (i div 4)) (unat (i mod 4))"

definition write_cr_bit :: "host_state \<Rightarrow> u32 \<Rightarrow> bool \<Rightarrow> host_state" where
  "write_cr_bit s i v =
     s\<lparr> crf := (crf s)(unat (i div 4) := (crf s (unat (i div 4)))(unat (i mod 4) := v)) \<rparr>"

definition result_cr_bit :: "outcome \<Rightarrow> u32 \<Rightarrow> bool option" where
  "result_cr_bit oc i = (case oc of Continue s \<Rightarrow> Some (read_cr_bit s i) | _ \<Rightarrow> None)"

text \<open>The statement trees of the builders, read off their operands.\<close>

definition cr_bit_stmt :: "ppc_insn \<Rightarrow> string \<Rightarrow> bool \<Rightarrow> bool \<Rightarrow> bool \<Rightarrow> host_stmt" where
  "cr_bit_stmt i opr invertA invertB invertResult =
     (let a = CRBit (unat (operand i 1 div 4)) (unat (operand i 1 mod 4));
          b = CRBit (unat (operand i 2 div 4)) (unat (operand i 2 mod 4));
          a = (if invertA then CRNot a else a);
          b = (if invertB then CRNot b else b);
          e = CRBin a opr b;
          e = (if invertResult then CRNot e else e)
      in SetCRBit (unat (operand i 0 div 4)) (unat (operand i 0 mod 4)) e)"

definition rlwinm_stmt :: "ppc_insn \<Rightarrow> host_stmt" where
  "rlwinm_stmt i =
     RotlMask64 (unat (operand i 0)) (unat (operand i 1)) (unat (operand i 2))
       (compute_mask (operand i 3 + 32) (operand i 4 + 32))"

definition switch_action :: "FunctionNode \<Rightarrow> u32 \<Rightarrow> case_action" where
  "switch_action f label =
     (if label < fn_base f \<or> label \<ge> fn_end f then ReturnOutside label else GotoLabel label)"

definition bctr_stmt :: "FunctionNode \<Rightarrow> JumpTable \<Rightarrow> host_stmt" where
  "bctr_stmt f jt =
     Switch (unat (indexRegister jt))
       (zip [0..<length (targets jt)] (map (switch_action f) (targets jt)))"

section \<open>The specification's wording, for comparison\<close>

text \<open>
  The PPC rotate mask as the specification words it, with bit positions counted from
  the most significant bit of the 64-bit word: for \<open>a \<le> b\<close> the bits \<open>a..b\<close>,
  otherwise everything but the bits strictly between \<open>b\<close> and \<open>a\<close>.
\<close>

definition spec_mask_bit :: "nat \<Rightarrow> nat \<Rightarrow> nat \<Rightarrow> bool" where
  "spec_mask_bit a b i \<longleftrightarrow> (if a \<le> b then a \<le> i \<and> i \<le> b else \<not> (b < i \<and> i < a))"

text \<open>
  The specification's reading of a \<open>Delay\<close> interval, in 100-ns ticks still to wait
  when the guest clock reads \<open>now\<close>: a negative interval is relative, a positive one is
  an absolute FILETIME deadline.
\<close>

definition spec_delay_ticks :: "int \<Rightarrow> int \<Rightarrow> int" where
  "spec_delay_ticks now interval = (if interval < 0 then - interval else interval - now)"

text \<open>
  "A call followed by \<open>return;\<close>": the text of the call occurs in what was emitted, and
  \<open>return;\<close> occurs after it. \<open>find_after p xs\<close> is what follows the first occurrence
  of \<open>p\<close> in \<open>xs\<close>.
\<close>

fun find_after :: "string \<Rightarrow> string \<Rightarrow> string option" where
  "find_after p [] = (if p = [] then Some [] else None)"
| "find_after p (c # cs) =
     (if take (length p) (c # cs) = p then Some (drop (length p) (c # cs)) else find_after p cs)"

definition spec_call_then_return :: "string \<Rightarrow> string \<Rightarrow> bool" where
  "spec_call_then_return call_text emitted \<longleftrightarrow>
     (case find_after call_text emitted of
        None \<Rightarrow> False
      | Some rest \<Rightarrow> find_after ''return;'' rest \<noteq> None)"

section \<open>Example inputs\<close>

text \<open>
  A function at \<open>0x82001000..0x82001100\<close>, the default configuration (no register
  promoted to a local), and a fresh builder context for an instruction at a given PC.
\<close>

definition example_fn :: FunctionNode where
  "example_fn = \<lparr> fn_base = 0x82001000, fn_end = 0x82001100, jumpTables = [] \<rparr>"

definition default_config :: RecompilerConfig where
  "default_config =
     \<lparr> skipLr = False,
       nonArgumentRegistersAsLocalVariables = False,
       nonVolatileRegistersAsLocalVariables = False,
       crRegistersAsLocalVariables = False,
       ctrAsLocalVariable = False,
       xerAsLocalVariable = False \<rparr>"

definition no_locals :: LocalVariables where
  "no_locals =
     \<lparr> local_r = (\<lambda>_. False), local_cr = (\<lambda>_. False), local_ctr = False,
       local_xer = False, mmio_base = (\<lambda>_. False) \<rparr>"

definition example_ctx :: "ppc_insn \<Rightarrow> u32 \<Rightarrow> BuilderContext" where
  "example_ctx i pc =
     \<lparr> insn = i, base = pc, fn = example_fn, config = default_config, switchTable = None,
       csrState = CSR_Unknown, locals = no_locals, next_is_eieio = False, out = [],
       logged = [] \<rparr>"

text \<open>
  A \<open>bctr\<close> at \<open>0x82001010\<close> with an auto-detected jump table on r3 and three
  targets L0, L1, L2 inside the function.
\<close>

definition example_jump_table :: JumpTable where
  "example_jump_table =
     \<lparr> bctrAddress = 0x82001010, indexRegister = 3,
       targets = [0x82001020, 0x82001040, 0x82001060] \<rparr>"

definition example_bctr_ctx :: BuilderContext where
  "example_bctr_ctx =
     (example_ctx \<lparr> opcode_name = ''bctr'', operands = [] \<rparr> 0x82001010)
       \<lparr> fn := example_fn\<lparr> jumpTables := [example_jump_table] \<rparr> \<rparr>"

text \<open>
  Collaborators for the branch examples: a graph that classifies nothing, and a call
  emitter that writes the host call \<open>sub_<target>(ctx, base);\<close>.
\<close>

definition example_ext :: Externals where
  "example_ext =
     \<lparr> classifyTarget = (\<lambda>target pc is_call. Unknown),
       emit_function_call =
         (\<lambda>ctx target. println ctx (tab @ ''sub_'' @ to_hex (unat target) @ ''(ctx, base);'')) \<rparr>"

text \<open>The same call emitter with a graph that knows \<open>0x82002000\<close> as a function.\<close>

definition example_graph_ext :: Externals where
  "example_graph_ext =
     \<lparr> classifyTarget =
         (\<lambda>target pc is_call. if target = 0x82002000 then Function else Unknown),
       emit_function_call =
         (\<lambda>ctx target. println ctx (tab @ ''sub_'' @ to_hex (unat target) @ ''(ctx, base);'')) \<rparr>"

definition zero_state :: host_state where
  "zero_state = \<lparr> gpr = (\<lambda>_. 0), crf = (\<lambda>_ _. False) \<rparr>"

section \<open>Theorems\<close>

subsection \<open>Evaluation rules for the formatters\<close>

lemma to_hex_small: "n < 16 \<Longrightarrow> to_hex n = [hex_digit n]"
  by (simp add: to_hex.simps)

lemma to_hex_big: "\<not> n < 16 \<Longrightarrow> to_hex n = to_hex (n div 16) @ [hex_digit (n mod 16)]"
  by (subst to_hex.simps) simp

lemma to_dec_small: "n < 10 \<Longrightarrow> to_dec n = [dec_digit n]"
  by (simp add: to_dec.simps)

lemma to_dec_big: "\<not> n < 10 \<Longrightarrow> to_dec n = to_dec (n div 10) @ [dec_digit (n mod 10)]"
  by (subst to_dec.simps) simp

lemmas fmt_eval = to_hex_small to_hex_big to_dec_small to_dec_big hex_digit_def dec_digit_def
  to_hex8_def to_dec_int_def

subsection \<open>Guest thread\<close>



text \<open>
  \<open>SetTLSValue\<close> stores exactly when the slot's byte offset lies inside the region.
\<close>

lemma SetTLSValue_in_range_iff:
  "(SetTLSValue t slot v \<noteq> None) = tls_slot_in_range t slot"
  by (auto simp add: SetTLSValue_def tls_slot_in_range_def)

text \<open>
  C9. \<open>GetTLSValue\<close> and \<open>SetTLSValue\<close> are said to make the same bounds check,
  succeeding exactly when \<open>slot * 4 < tls_total_size\<close>. \<open>SetTLSValue\<close> does
  (\<open>SetTLSValue_in_range_iff\<close>); \<open>GetTLSValue\<close> tests \<open>slot * 4 > tls_total_size_\<close>
  and so lets through the slot whose offset equals the size. With the default 1024
  slots (4096 bytes), slot 1024 is out of range and \<open>SetTLSValue\<close> refuses it, yet
  \<open>GetTLSValue\<close> returns true and reads the word just past the region.
\<close>

theorem GetTLSValue_accepts_region_end:
  "GetTLSValue \<lparr> tls_dynamic_address = 0x70000000, tls_total_size = 4096,
                  memory = (\<lambda>a. if a = 0x70001000 then 0xDEADBEEF else 0) \<rparr> 1024 = Some 0xDEADBEEF \<and>
   \<not> tls_slot_in_range \<lparr> tls_dynamic_address = 0x70000000, tls_total_size = 4096,
                  memory = (\<lambda>a. if a = 0x70001000 then 0xDEADBEEF else 0) \<rparr> 1024 \<and>
   SetTLSValue \<lparr> tls_dynamic_address = 0x70000000, tls_total_size = 4096,
                  memory = (\<lambda>a. if a = 0x70001000 then 0xDEADBEEF else 0) \<rparr> 1024 7 = None"
  by (simp add: GetTLSValue_def SetTLSValue_def tls_slot_in_range_def)

text \<open>Negating a negative 64-bit interval other than the least one negates its value.\<close>

lemma sint_neg_u64:
  assumes "sint (x :: u64) < 0" and "x \<noteq> 0x8000000000000000"
  shows "sint (- x) = - sint x"
proof -
  have ge: "- (2 ^ 63) \<le> sint x" using sint_ge [of x] by simp
  have ne: "sint x \<noteq> - (2 ^ 63)"
  proof
    assume "sint x = - (2 ^ 63)"
    then have "(word_of_int (sint x) :: u64) = word_of_int (- (2 ^ 63))" by simp
    then show False using assms(2) by simp
  qed
  have "sint (- x) = signed_take_bit 63 (- sint x)"
    by (simp add: sint_word_minus)
  also have "\<dots> = - sint x"
    using ge ne assms(1) by (intro signed_take_bit_int_eq_self) simp_all
  finally show ?thesis .
qed

lemma Delay_timeout_relative:
  assumes "sint (interval :: u64) < 0" and "interval \<noteq> 0x8000000000000000"
  shows "Delay_timeout_ms interval = (False, word_of_int ((- sint interval) div 10000))"
proof -
  have "sint (- interval) = - sint interval" using assms by (rule sint_neg_u64)
  moreover have "(- sint interval) sdiv 10000 = (- sint interval) div 10000"
    using assms(1) by (simp add: signed_divide_int_def sgn_if)
  ultimately show ?thesis using assms(1) by (simp add: Delay_timeout_ms_def)
qed

text \<open>
  What \<open>XThread::Delay\<close> does with each interval. A negative interval is a relative
  wait of \<open>(-interval) / 10000\<close> milliseconds (whole milliseconds of the 100-ns
  ticks, kept to 32 bits). A positive interval reaches \<open>assert_always()\<close> and the
  wait is derived from 0 ms. A zero interval waits 0 ms. The milliseconds pass through
  \<open>ScaleGuestDurationMillis\<close> before the sleep. The status is \<open>X_STATUS_USER_APC\<close>
  exactly when the wait is alertable and the sleep reports that it was alerted, and
  \<open>X_STATUS_SUCCESS\<close> otherwise.
\<close>

lemma Delay_forms:
  "(sint interval < 0 \<and> interval \<noteq> 0x8000000000000000 \<longrightarrow>
      Delay_timeout_ms interval = (False, word_of_int ((- sint interval) div 10000))) \<and>
   (sint interval > 0 \<longrightarrow> Delay_timeout_ms interval = (True, 0)) \<and>
   (interval = 0 \<longrightarrow> Delay_timeout_ms interval = (False, 0)) \<and>
   assert_reached (Delay scale sleeper pm alertable interval) = fst (Delay_timeout_ms interval) \<and>
   slept_ms (Delay scale sleeper pm alertable interval) = scale (snd (Delay_timeout_ms interval)) \<and>
   slept_alertable (Delay scale sleeper pm alertable interval) = (alertable \<noteq> 0) \<and>
   (status (Delay scale sleeper pm alertable interval) = X_STATUS_USER_APC \<longleftrightarrow>
      alertable \<noteq> 0 \<and> sleeper (scale (snd (Delay_timeout_ms interval))) = kAlerted) \<and>
   (status (Delay scale sleeper pm alertable interval) = X_STATUS_SUCCESS \<longleftrightarrow>
      \<not> (alertable \<noteq> 0 \<and> sleeper (scale (snd (Delay_timeout_ms interval))) = kAlerted))"
proof -
  have a: "sint interval < 0 \<and> interval \<noteq> 0x8000000000000000 \<longrightarrow>
      Delay_timeout_ms interval = (False, word_of_int ((- sint interval) div 10000))"
    using Delay_timeout_relative by blast
  have b: "sint interval > 0 \<longrightarrow> Delay_timeout_ms interval = (True, 0)"
    by (simp add: Delay_timeout_ms_def)
  have c: "interval = 0 \<longrightarrow> Delay_timeout_ms interval = (False, 0)"
    by (simp add: Delay_timeout_ms_def)
  have d: "assert_reached (Delay scale sleeper pm alertable interval) = fst (Delay_timeout_ms interval)"
    by (simp add: Delay_def Let_def split: prod.splits SleepResult.splits)
  have e: "slept_ms (Delay scale sleeper pm alertable interval) = scale (snd (Delay_timeout_ms interval))"
    by (simp add: Delay_def Let_def split: prod.splits SleepResult.splits)
  have f: "slept_alertable (Delay scale sleeper pm alertable interval) = (alertable \<noteq> 0)"
    by (simp add: Delay_def Let_def split: prod.splits SleepResult.splits)
  have g: "status (Delay scale sleeper pm alertable interval) = X_STATUS_USER_APC \<longleftrightarrow>
      alertable \<noteq> 0 \<and> sleeper (scale (snd (Delay_timeout_ms interval))) = kAlerted"
    by (auto simp add: Delay_def Let_def split: prod.splits SleepResult.splits)
  have h: "status (Delay scale sleeper pm alertable interval) = X_STATUS_SUCCESS \<longleftrightarrow>
      \<not> (alertable \<noteq> 0 \<and> sleeper (scale (snd (Delay_timeout_ms interval))) = kAlerted)"
    by (auto simp add: Delay_def Let_def split: prod.splits SleepResult.splits)
  show ?thesis using a b c d e f g h by blast
qed

text \<open>
  Five ticks of a millisecond each, relative, under a clock scaled by two: the sleep is
  asked for 10 ms; alertable and alerted it reports the APC, not alertable it succeeds.
\<close>

lemma Delay_forms_example:
  "Delay_timeout_ms (- 50000) = (False, 5) \<and>
   Delay_timeout_ms 132538032133450000 = (True, 0) \<and>
   status (Delay (\<lambda>ms. 2 * ms) (\<lambda>ms. if ms = 10 then kAlerted else kSuccess) 0 1 (- 50000)) = X_STATUS_USER_APC \<and>
   status (Delay (\<lambda>ms. 2 * ms) (\<lambda>ms. if ms = 10 then kAlerted else kSuccess) 0 0 (- 50000)) = X_STATUS_SUCCESS"
proof -
  have n: "sint (- 50000 :: u64) < 0 \<and> (- 50000 :: u64) \<noteq> 0x8000000000000000" by simp
  have p: "sint (132538032133450000 :: u64) > 0" by simp
  note t1 = Delay_forms [of "- 50000" "\<lambda>ms. 2 * ms" "\<lambda>ms. if ms = 10 then kAlerted else kSuccess" 0 1]
  note t2 = Delay_forms [of "132538032133450000" "\<lambda>ms. 2 * ms" "\<lambda>ms. if ms = 10 then kAlerted else kSuccess" 0 0]
  note t3 = Delay_forms [of "- 50000" "\<lambda>ms. 2 * ms" "\<lambda>ms. if ms = 10 then kAlerted else kSuccess" 0 0]
  have r1: "Delay_timeout_ms (- 50000) = (False, 5)" using t1 n by simp
  have r2: "Delay_timeout_ms 132538032133450000 = (True, 0)" using t2 p by simp
  show ?thesis using r1 r2 t1 t3 by simp
qed

text \<open>
  C8. \<open>XThread::Delay\<close> is said to honour both interval forms, a negative interval
  as a relative wait and a positive one as an absolute FILETIME deadline, scaled by the
  guest clock, and to return \<open>X_STATUS_USER_APC\<close> when an alertable wait is
  interrupted. The relative form, the scaling and the status are as said
  (\<open>Delay_forms\<close>). The absolute form is not: the source leaves the conversion as a
  TODO behind \<open>assert_always()\<close>. With the guest clock at FILETIME
  132538032123450000, the deadline 132538032133450000 lies one second (1000 ms) ahead;
  \<open>Delay\<close> reaches the assertion and sleeps 0 ms.
\<close>

theorem Delay_absolute_deadline_ignored:
  "Delay_timeout_ms 132538032133450000 = (True, 0) \<and>
   spec_delay_ticks 132538032123450000 (sint (132538032133450000 :: u64)) div 10000 = 1000 \<and>
   slept_ms (Delay (\<lambda>ms. ms) (\<lambda>ms. kSuccess) 0 0 132538032133450000) = 0"
  by (simp add: Delay_timeout_ms_def spec_delay_ticks_def Delay_def)

subsection \<open>Rotate masks\<close>

lemma bit_drop_ones: "bit (drop_bit n (- 1 :: u64)) k \<longleftrightarrow> n + k < 64"
  by (auto simp add: bit_simps)

lemma u32_and_3F:
  assumes "(a :: u32) \<le> 63"
  shows "a AND 0x3F = a"
proof -
  have "unat a \<le> 63" using assms by (simp add: word_le_nat_alt)
  then have "a < 2 ^ 6" by (simp add: word_less_nat_alt)
  then have "a AND mask 6 = a" by (rule less_mask_eq)
  then show ?thesis by (simp add: mask_eq_exp_minus_1)
qed

lemma compute_mask_unfold:
  assumes a: "(a :: u32) \<le> 63" and b: "(b :: u32) \<le> 63"
  shows "compute_mask a b =
     (let v = drop_bit (unat a) (- 1 :: u64) XOR
                (if unat b = 63 then 0 else drop_bit (Suc (unat b)) (- 1 :: u64))
      in if unat a \<le> unat b then v else NOT v)"
proof -
  have nb: "unat b \<le> 63" using b by (simp add: word_le_nat_alt)
  have ge: "(63 \<le> b) = (unat b = 63)" using nb by (auto simp add: word_le_nat_alt)
  have suc: "unat b \<noteq> 63 \<Longrightarrow> unat (b + 1) = Suc (unat b)"
    using nb by (simp add: unat_word_ariths)
  show ?thesis
    using suc by (simp add: compute_mask_def u32_and_3F [OF a] u32_and_3F [OF b] ge
      word_le_nat_alt Let_def)
qed

text \<open>
  C2. For every pair of 6-bit inputs \<open>a\<close>, \<open>b\<close>, \<open>compute_mask a b\<close> is the PPC
  rotate mask: counting bit positions from the most significant bit of the 64-bit
  word, position \<open>i\<close> is set exactly when \<open>a \<le> i \<le> b\<close> if \<open>a \<le> b\<close>, and exactly
  when \<open>i\<close> is not strictly between \<open>b\<close> and \<open>a\<close> if \<open>a > b\<close> (the wrapped mask).
\<close>

theorem compute_mask_is_ppc_mask:
  assumes a: "(a :: u32) \<le> 63" and b: "(b :: u32) \<le> 63" and i: "i < 64"
  shows "bit (compute_mask a b) (63 - i) = spec_mask_bit (unat a) (unat b) i"
proof -
  have na: "unat a \<le> 63" using a by (simp add: word_le_nat_alt)
  have nb: "unat b \<le> 63" using b by (simp add: word_le_nat_alt)
  show ?thesis
    using na nb i
    by (auto simp add: compute_mask_unfold [OF a b] Let_def spec_mask_bit_def bit_xor_iff
        bit_not_iff bit_drop_ones bit_mask_iff)
qed

text \<open>
  The mask of bits 48..55 has bit 50 set and bit 56 clear; the wrapped mask from 60
  to 3 has bit 62 set and bit 30 clear.
\<close>

theorem compute_mask_is_ppc_mask_witness:
  "bit (compute_mask 48 55) (63 - 50) \<and> \<not> bit (compute_mask 48 55) (63 - 56) \<and>
   bit (compute_mask 60 3) (63 - 62) \<and> \<not> bit (compute_mask 60 3) (63 - 30)"
  using compute_mask_is_ppc_mask [of 48 55 50] compute_mask_is_ppc_mask [of 48 55 56]
        compute_mask_is_ppc_mask [of 60 3 62] compute_mask_is_ppc_mask [of 60 3 30]
  by (simp add: spec_mask_bit_def)

subsection \<open>Rotate and mask\<close>

text \<open>
  For an \<open>rlwinm\<close> that is not a record form, the one line the builder writes is the
  rendering of its statement tree.
\<close>

lemma build_rlwinm_text:
  assumes "\<not> isRecordForm (insn ctx)"
  shows "out (snd (build_rlwinm ctx)) = out ctx @ render_stmt (config ctx) (rlwinm_stmt (insn ctx))"
  using assms
  by (simp add: build_rlwinm_def rlwinm_stmt_def emitRecordFormCompare_def r_def r_name_def
      println_def Let_def split: prod.splits)

lemma push_bit_32_low: "push_bit 32 (x :: u64) = push_bit 32 (ucast (ucast x :: u32) :: u64)"
  by (rule bit_word_eqI) (auto simp add: bit_simps)

lemma mask_48_55: "compute_mask 48 55 = 0xFF00"
  by code_simp

lemma rotl64_example: "word_rotl 8 (0xAABBCCDDAABBCCDD :: u64) AND 0xFF00 = 0xDD00"
  by code_simp

lemma rotl32_masked: "(ucast (word_rotl 8 (0xAABBCCDD :: u32)) :: u64) AND 0xFF00 = 0xDD00"
  by code_simp

text \<open>
  C1, as amended. For \<open>rlwinm r3, r4, 8, 16, 23\<close> executed with the low word of r4
  equal to \<open>0xAABBCCDD\<close>, the emitted statement computes \<open>rotl32(0xAABBCCDD, 8)\<close>
  masked by \<open>compute_mask(16+32, 23+32)\<close>, and the resulting value of r3 is
  \<open>0x0000DD00\<close>: bits 8..15 hold \<open>0xDD\<close> and all other bits, the low 8 among them,
  are zero.
\<close>

theorem rlwinm_example:
  assumes i: "insn ctx = \<lparr> opcode_name = ''rlwinm'', operands = [3, 4, 8, 16, 23] \<rparr>"
    and r4: "ucast (gpr s 4) = (0xAABBCCDD :: u32)"
  shows "out (snd (build_rlwinm ctx)) =
           out ctx @ render_stmt (config ctx) (RotlMask64 3 4 8 (compute_mask (16 + 32) (23 + 32))) \<and>
         exec_stmt (RotlMask64 3 4 8 (compute_mask (16 + 32) (23 + 32))) s =
           Continue (s\<lparr> gpr := (gpr s)(3 :=
             ucast (word_rotl 8 (0xAABBCCDD :: u32)) AND compute_mask (16 + 32) (23 + 32)) \<rparr>) \<and>
         (ucast (word_rotl 8 (0xAABBCCDD :: u32)) :: u64) AND compute_mask (16 + 32) (23 + 32) = 0xDD00"
proof -
  have nr: "\<not> isRecordForm (insn ctx)" by (simp add: i isRecordForm_def)
  have st: "rlwinm_stmt (insn ctx) = RotlMask64 3 4 8 (compute_mask (16 + 32) (23 + 32))"
    by (simp add: i rlwinm_stmt_def operand_def)
  have t: "out (snd (build_rlwinm ctx)) =
      out ctx @ render_stmt (config ctx) (RotlMask64 3 4 8 (compute_mask (16 + 32) (23 + 32)))"
    using build_rlwinm_text [OF nr] st by simp
  have v32: "(ucast (word_rotl 8 (0xAABBCCDD :: u32)) :: u64) AND compute_mask (16 + 32) (23 + 32) = 0xDD00"
    by (simp add: mask_48_55 rotl32_masked)
  have v: "word_rotl 8 (ucast (ucast (gpr s 4) :: u32) OR push_bit 32 (gpr s 4)) AND
      compute_mask (16 + 32) (23 + 32) = (0xDD00 :: u64)"
    by (subst push_bit_32_low) (simp add: r4 mask_48_55 rotl64_example)
  have e: "exec_stmt (RotlMask64 3 4 8 (compute_mask (16 + 32) (23 + 32))) s =
      Continue (s\<lparr> gpr := (gpr s)(3 :=
        ucast (word_rotl 8 (0xAABBCCDD :: u32)) AND compute_mask (16 + 32) (23 + 32)) \<rparr>)"
    by (simp only: exec_stmt.simps v v32)
  show ?thesis using t e v32 by blast
qed

theorem rlwinm_example_witness:
  "out (snd (build_rlwinm (example_ctx \<lparr> opcode_name = ''rlwinm'', operands = [3, 4, 8, 16, 23] \<rparr> 0x82001000))) =
     tab @ ''ctx.r3.u64 = __builtin_rotateleft64(ctx.r4.u32 | (ctx.r4.u64 << 32), 8) & 0xFF00;'' @ newline \<and>
   exec_stmt (RotlMask64 3 4 8 0xFF00) (zero_state\<lparr> gpr := (gpr zero_state)(4 := 0xAABBCCDD) \<rparr>) =
     Continue (zero_state\<lparr> gpr := (gpr zero_state)(4 := 0xAABBCCDD, 3 := 0xDD00) \<rparr>)"
proof -
  have i: "insn (example_ctx \<lparr> opcode_name = ''rlwinm'', operands = [3, 4, 8, 16, 23] \<rparr> 0x82001000) =
      \<lparr> opcode_name = ''rlwinm'', operands = [3, 4, 8, 16, 23] \<rparr>"
    by (simp add: example_ctx_def)
  have r4: "ucast (gpr (zero_state\<lparr> gpr := (gpr zero_state)(4 := 0xAABBCCDD) \<rparr>) 4) = (0xAABBCCDD :: u32)"
    by simp
  show ?thesis
    using rlwinm_example [OF i r4]
    by (simp add: mask_48_55 rotl64_example rotl32_masked example_ctx_def default_config_def
        r_name_def r_is_local_def fmt_eval)
qed

text \<open>
  The claim as stated, r3 = \<open>0xCC\<close>, fails: the statement leaves \<open>0xDD00\<close> in r3.
\<close>

theorem rlwinm_low_byte_counterexample:
  "result_gpr (exec_stmt (rlwinm_stmt \<lparr> opcode_name = ''rlwinm'', operands = [3, 4, 8, 16, 23] \<rparr>)
     (zero_state\<lparr> gpr := (gpr zero_state)(4 := 0xAABBCCDD) \<rparr>)) 3 = Some 0xDD00 \<and>
   result_gpr (exec_stmt (rlwinm_stmt \<lparr> opcode_name = ''rlwinm'', operands = [3, 4, 8, 16, 23] \<rparr>)
     (zero_state\<lparr> gpr := (gpr zero_state)(4 := 0xAABBCCDD) \<rparr>)) 3 \<noteq> Some 0xCC"
  by (simp add: rlwinm_stmt_def operand_def mask_48_55 rotl64_example result_gpr_def)

subsection \<open>Dispatch\<close>

text \<open>
  C7. For every opcode identifier with no entry in the dispatch table,
  \<open>DispatchInstruction\<close> writes a warning to the log, appends to the output a comment
  line and the trap stub \<open>PPC_UNIMPLEMENTED(0x<pc>, "<mnemonic>");\<close> (so the
  instruction is not dropped), and returns true.
\<close>

theorem DispatchInstruction_unimplemented:
  assumes "table opcode_id = None"
  shows "fst (DispatchInstruction table opcode_id ctx) = True \<and>
         out (snd (DispatchInstruction table opcode_id ctx)) =
           out ctx @
           tab @ ''// UNIMPLEMENTED: '' @ opcode_name (insn ctx) @ newline @
           tab @ ''PPC_UNIMPLEMENTED(0x'' @ to_hex (unat (base ctx)) @ '', '' @ dquote @
             opcode_name (insn ctx) @ dquote @ '');'' @ newline \<and>
         logged (snd (DispatchInstruction table opcode_id ctx)) =
           logged ctx @ [(LogWarn, ''Unimplemented: '' @ opcode_name (insn ctx) @ '' at 0x'' @
             to_hex8 (unat (base ctx)))]"
  using assms by (simp add: DispatchInstruction_def println_def log_msg_def Let_def)

theorem DispatchInstruction_unimplemented_witness:
  "fst (DispatchInstruction [21 \<mapsto> build_rlwinm] 999
          (example_ctx \<lparr> opcode_name = ''tlbie'', operands = [] \<rparr> 0x82001040)) = True \<and>
   out (snd (DispatchInstruction [21 \<mapsto> build_rlwinm] 999
          (example_ctx \<lparr> opcode_name = ''tlbie'', operands = [] \<rparr> 0x82001040))) =
     tab @ ''// UNIMPLEMENTED: tlbie'' @ newline @
     tab @ ''PPC_UNIMPLEMENTED(0x82001040, '' @ dquote @ ''tlbie'' @ dquote @ '');'' @ newline \<and>
   logged (snd (DispatchInstruction [21 \<mapsto> build_rlwinm] 999
          (example_ctx \<lparr> opcode_name = ''tlbie'', operands = [] \<rparr> 0x82001040))) =
     [(LogWarn, ''Unimplemented: tlbie at 0x82001040'')]"
  using DispatchInstruction_unimplemented [of "[21 \<mapsto> build_rlwinm]" 999
      "example_ctx \<lparr> opcode_name = ''tlbie'', operands = [] \<rparr> 0x82001040"]
  by (simp add: example_ctx_def fmt_eval)

subsection \<open>MMIO base propagation\<close>

lemma build_lis_flag:
  "is_mmio_base (locals (snd (build_lis c))) (unat (operand (insn c) 0)) =
     isMMIOUpperBits (operand (insn c) 1)"
  by (simp add: build_lis_def r_def println_def set_mmio_base_def clear_mmio_base_def
      is_mmio_base_def Let_def split: prod.splits)

lemma lis_value: "sint (push_bit 16 (0x7FC8 :: u32)) = 0x7FC80000"
  by simp

text \<open>
  C6. Translating \<open>lis r4, 0x7FC8\<close> emits \<open>ctx.r4.s64 = 2143813632;\<close> (that is,
  0x7FC80000) and flags r4 as an MMIO base; a \<open>stw r5, 0(r4)\<close> translated next, with
  the same local-variable flags, emits \<open>PPC_MM_STORE_U32\<close> and not \<open>PPC_STORE_U32\<close>.
  For any \<open>lis\<close>, the destination is flagged exactly when the immediate lies in
  \<open>0x7FC8..0x7FCF\<close> or equals \<open>0x7FEA\<close>.
\<close>

theorem lis_marks_mmio_base:
  assumes i: "insn ctx = \<lparr> opcode_name = ''lis'', operands = [4, 0x7FC8] \<rparr>"
  shows "out (snd (build_lis ctx)) = out ctx @ tab @ ''ctx.r4.s64 = 2143813632;'' @ newline \<and>
         is_mmio_base (locals (snd (build_lis ctx))) 4 \<and>
         out (snd (build_stw ((snd (build_lis ctx))
                \<lparr> insn := \<lparr> opcode_name = ''stw'', operands = [5, 0, 4] \<rparr>, base := base ctx + 4 \<rparr>))) =
           out (snd (build_lis ctx)) @ tab @ ''PPC_MM_STORE_U32(ctx.r4.u32 + 0, ctx.r5.u32);'' @ newline \<and>
         (is_mmio_base (locals (snd (build_lis c))) (unat (operand (insn c) 0)) \<longleftrightarrow>
            (0x7FC8 \<le> operand (insn c) 1 \<and> operand (insn c) 1 \<le> 0x7FCF) \<or>
            operand (insn c) 1 = 0x7FEA)"
proof -
  have a: "out (snd (build_lis ctx)) = out ctx @ tab @ ''ctx.r4.s64 = 2143813632;'' @ newline"
    by (simp add: build_lis_def i operand_def r_def r_is_local_def println_def Let_def fmt_eval
        split: prod.splits)
  have b: "is_mmio_base (locals (snd (build_lis ctx))) 4"
    using build_lis_flag [of ctx] by (simp add: i operand_def isMMIOUpperBits_def)
  have c: "out (snd (build_stw ((snd (build_lis ctx))
                \<lparr> insn := \<lparr> opcode_name = ''stw'', operands = [5, 0, 4] \<rparr>, base := base ctx + 4 \<rparr>))) =
           out (snd (build_lis ctx)) @ tab @ ''PPC_MM_STORE_U32(ctx.r4.u32 + 0, ctx.r5.u32);'' @ newline"
    using b
    by (simp add: build_stw_def emit_store_d_form_def getStoreMacro_def mmio_check_d_form_def
        mmio_store_macro_def operand_def r_def r_is_local_def println_def print_def Let_def fmt_eval split: prod.splits)
  have d: "is_mmio_base (locals (snd (build_lis c))) (unat (operand (insn c) 0)) \<longleftrightarrow>
            (0x7FC8 \<le> operand (insn c) 1 \<and> operand (insn c) 1 \<le> 0x7FCF) \<or>
            operand (insn c) 1 = 0x7FEA"
    by (simp add: build_lis_flag isMMIOUpperBits_def)
  show ?thesis using a b c d by blast
qed

theorem lis_marks_mmio_base_witness:
  "out (snd (build_lis (example_ctx \<lparr> opcode_name = ''lis'', operands = [4, 0x7FC8] \<rparr> 0x82001000))) =
     tab @ ''ctx.r4.s64 = 2143813632;'' @ newline \<and>
   out (snd (build_stw ((snd (build_lis (example_ctx \<lparr> opcode_name = ''lis'', operands = [4, 0x7FC8] \<rparr> 0x82001000)))
          \<lparr> insn := \<lparr> opcode_name = ''stw'', operands = [5, 0, 4] \<rparr>, base := 0x82001004 \<rparr>))) =
     tab @ ''ctx.r4.s64 = 2143813632;'' @ newline @
     tab @ ''PPC_MM_STORE_U32(ctx.r4.u32 + 0, ctx.r5.u32);'' @ newline \<and>
   \<not> is_mmio_base (locals (snd (build_lis
       (example_ctx \<lparr> opcode_name = ''lis'', operands = [4, 0x7FD0] \<rparr> 0x82001000)))) 4"
proof -
  have i: "insn (example_ctx \<lparr> opcode_name = ''lis'', operands = [4, 0x7FC8] \<rparr> 0x82001000) =
      \<lparr> opcode_name = ''lis'', operands = [4, 0x7FC8] \<rparr>"
    by (simp add: example_ctx_def)
  show ?thesis
    using lis_marks_mmio_base [OF i,
        of "example_ctx \<lparr> opcode_name = ''lis'', operands = [4, 0x7FD0] \<rparr> 0x82001000"]
    by (simp add: example_ctx_def operand_def)
qed

subsection \<open>Condition-register bit operations\<close>

lemma crBitName_of_unat: "crBitName (of_nat (unat (w :: u32))) = crBitName w"
  by simp

text \<open>The line \<open>emitCRBitOperation\<close> writes is the rendering of its statement tree.\<close>

lemma emitCRBitOperation_text:
  "out (emitCRBitOperation ctx opr ia ib ir) =
     out ctx @ render_stmt (config ctx) (cr_bit_stmt (insn ctx) opr ia ib ir)"
  by (simp add: emitCRBitOperation_def cr_bit_stmt_def cr_def cr_name_def println_def Let_def
      split: prod.splits)

text \<open>
  With \<open>&\<close> or \<open>|\<close> the statement reads the two source bits, applies the inversions
  and the operator, and writes the destination bit only.
\<close>

lemma cr_bit_stmt_and:
  "exec_stmt (cr_bit_stmt i ''&'' ia ib ir) s =
     Continue (write_cr_bit s (operand i 0)
       ((((read_cr_bit s (operand i 1)) \<noteq> ia) \<and> ((read_cr_bit s (operand i 2)) \<noteq> ib)) \<noteq> ir))"
  by (auto simp add: cr_bit_stmt_def read_cr_bit_def write_cr_bit_def Let_def)

lemma cr_bit_stmt_or:
  "exec_stmt (cr_bit_stmt i ''|'' ia ib ir) s =
     Continue (write_cr_bit s (operand i 0)
       ((((read_cr_bit s (operand i 1)) \<noteq> ia) \<or> ((read_cr_bit s (operand i 2)) \<noteq> ib)) \<noteq> ir))"
  by (auto simp add: cr_bit_stmt_def read_cr_bit_def write_cr_bit_def Let_def)

text \<open>
  The six builders that pass \<open>&\<close> or \<open>|\<close> emit a statement that does what the PPC
  instruction does.
\<close>

lemma cr_and_or_builders:
  "out (snd (build_crand ctx)) = out ctx @ render_stmt (config ctx) (cr_bit_stmt (insn ctx) ''&'' False False False)"
  "exec_stmt (cr_bit_stmt i ''&'' False False False) s =
     Continue (write_cr_bit s (operand i 0) (read_cr_bit s (operand i 1) \<and> read_cr_bit s (operand i 2)))"
  "out (snd (build_crandc ctx)) = out ctx @ render_stmt (config ctx) (cr_bit_stmt (insn ctx) ''&'' False True False)"
  "exec_stmt (cr_bit_stmt i ''&'' False True False) s =
     Continue (write_cr_bit s (operand i 0) (read_cr_bit s (operand i 1) \<and> \<not> read_cr_bit s (operand i 2)))"
  "out (snd (build_crnand ctx)) = out ctx @ render_stmt (config ctx) (cr_bit_stmt (insn ctx) ''&'' False False True)"
  "exec_stmt (cr_bit_stmt i ''&'' False False True) s =
     Continue (write_cr_bit s (operand i 0) (\<not> (read_cr_bit s (operand i 1) \<and> read_cr_bit s (operand i 2))))"
  "out (snd (build_crnor ctx)) = out ctx @ render_stmt (config ctx) (cr_bit_stmt (insn ctx) ''|'' False False True)"
  "exec_stmt (cr_bit_stmt i ''|'' False False True) s =
     Continue (write_cr_bit s (operand i 0) (\<not> (read_cr_bit s (operand i 1) \<or> read_cr_bit s (operand i 2))))"
  "out (snd (build_cror ctx)) = out ctx @ render_stmt (config ctx) (cr_bit_stmt (insn ctx) ''|'' False False False)"
  "exec_stmt (cr_bit_stmt i ''|'' False False False) s =
     Continue (write_cr_bit s (operand i 0) (read_cr_bit s (operand i 1) \<or> read_cr_bit s (operand i 2)))"
  "out (snd (build_crorc ctx)) = out ctx @ render_stmt (config ctx) (cr_bit_stmt (insn ctx) ''|'' False True False)"
  "exec_stmt (cr_bit_stmt i ''|'' False True False) s =
     Continue (write_cr_bit s (operand i 0) (read_cr_bit s (operand i 1) \<or> \<not> read_cr_bit s (operand i 2)))"
  by (simp_all add: build_crand_def build_crandc_def build_crnand_def build_crnor_def
      build_cror_def build_crorc_def emitCRBitOperation_text cr_bit_stmt_and cr_bit_stmt_or)

text \<open>
  \<open>build_creqv\<close> passes \<open>=\<close>, so its statement is a chained assignment: the second
  source bit is stored into the first source bit and into the destination.
\<close>

lemma cr_bit_stmt_assign:
  "exec_stmt (cr_bit_stmt i ''='' False False False) s =
     Continue (write_cr_bit (write_cr_bit s (operand i 1) (read_cr_bit s (operand i 2)))
       (operand i 0) (read_cr_bit s (operand i 2)))"
  by (simp add: cr_bit_stmt_def read_cr_bit_def write_cr_bit_def Let_def)

text \<open>
  C3. Every individual-bit CR builder is said to read the two source bits, apply its
  logical operation and write only the destination bit, leaving the source bits as
  they were. \<open>crand\<close>, \<open>crandc\<close>, \<open>crnand\<close>, \<open>crnor\<close>, \<open>cror\<close> and \<open>crorc\<close> do
  (\<open>cr_and_or_builders\<close>). \<open>creqv\<close> does not: for \<open>creqv 2, 0, 1\<close> the builder writes
  \<open>ctx.cr0.eq = ctx.cr0.lt = ctx.cr0.gt;\<close>. Run with \<open>cr0.lt = 0\<close> and \<open>cr0.gt = 1\<close>,
  that statement sets \<open>cr0.eq\<close> to 1, where the equivalence of 0 and 1 is 0, and
  overwrites the source bit \<open>cr0.lt\<close> with 1.
\<close>

theorem creqv_emits_assignment:
  "out (snd (build_creqv (example_ctx \<lparr> opcode_name = ''creqv'', operands = [2, 0, 1] \<rparr> 0x82001000))) =
     tab @ ''ctx.cr0.eq = ctx.cr0.lt = ctx.cr0.gt;'' @ newline \<and>
   out (snd (build_creqv (example_ctx \<lparr> opcode_name = ''creqv'', operands = [2, 0, 1] \<rparr> 0x82001000))) =
     render_stmt default_config
       (cr_bit_stmt \<lparr> opcode_name = ''creqv'', operands = [2, 0, 1] \<rparr> ''='' False False False) \<and>
   read_cr_bit (write_cr_bit zero_state 1 True) 0 = False \<and>
   read_cr_bit (write_cr_bit zero_state 1 True) 1 = True \<and>
   result_cr_bit (exec_stmt
       (cr_bit_stmt \<lparr> opcode_name = ''creqv'', operands = [2, 0, 1] \<rparr> ''='' False False False)
       (write_cr_bit zero_state 1 True)) 2 = Some True \<and>
   result_cr_bit (exec_stmt
       (cr_bit_stmt \<lparr> opcode_name = ''creqv'', operands = [2, 0, 1] \<rparr> ''='' False False False)
       (write_cr_bit zero_state 1 True)) 0 = Some True"
proof -
  have t: "out (snd (build_creqv (example_ctx \<lparr> opcode_name = ''creqv'', operands = [2, 0, 1] \<rparr> 0x82001000))) =
     render_stmt default_config
       (cr_bit_stmt \<lparr> opcode_name = ''creqv'', operands = [2, 0, 1] \<rparr> ''='' False False False)"
    by (simp add: build_creqv_def emitCRBitOperation_text) (simp add: example_ctx_def)
  have r: "render_stmt default_config
       (cr_bit_stmt \<lparr> opcode_name = ''creqv'', operands = [2, 0, 1] \<rparr> ''='' False False False) =
     tab @ ''ctx.cr0.eq = ctx.cr0.lt = ctx.cr0.gt;'' @ newline"
    by (simp add: cr_bit_stmt_def operand_def cr_name_def default_config_def crBitName_def fmt_eval)
  have e: "result_cr_bit (exec_stmt
       (cr_bit_stmt \<lparr> opcode_name = ''creqv'', operands = [2, 0, 1] \<rparr> ''='' False False False)
       (write_cr_bit zero_state 1 True)) 2 = Some True \<and>
     result_cr_bit (exec_stmt
       (cr_bit_stmt \<lparr> opcode_name = ''creqv'', operands = [2, 0, 1] \<rparr> ''='' False False False)
       (write_cr_bit zero_state 1 True)) 0 = Some True"
    by (simp add: cr_bit_stmt_assign result_cr_bit_def read_cr_bit_def write_cr_bit_def
        operand_def zero_state_def)
  have s: "read_cr_bit (write_cr_bit zero_state 1 True) 0 = False \<and>
     read_cr_bit (write_cr_bit zero_state 1 True) 1 = True"
    by (simp add: read_cr_bit_def write_cr_bit_def zero_state_def)
  show ?thesis using t r e s by simp
qed

subsection \<open>Jump tables\<close>

text \<open>The loop over the targets leaves everything but the output and the log alone.\<close>

lemma emit_switch_cases_fn [simp]: "fn (emit_switch_cases ctx i ts) = fn ctx"
  by (induction ts arbitrary: ctx i) (simp_all add: println_def log_msg_def Let_def)

lemma emit_switch_cases_config [simp]: "config (emit_switch_cases ctx i ts) = config ctx"
  by (induction ts arbitrary: ctx i) (simp_all add: println_def log_msg_def Let_def)

text \<open>What the loop writes: one rendered case per target, numbered from \<open>i\<close>.\<close>

lemma emit_switch_cases_out:
  "out (emit_switch_cases ctx i ts) =
     out ctx @ concat (map render_case (zip [i..<i + length ts] (map (switch_action (fn ctx)) ts)))"
proof (induction ts arbitrary: ctx i)
  case Nil
  then show ?case by simp
next
  case (Cons t ts)
  have u: "[i..<i + length (t # ts)] = i # [Suc i..<Suc i + length ts]"
    using upt_conv_Cons [of i "i + length (t # ts)"] by simp
  show ?case
    by (simp only: u) (simp add: Cons.IH switch_action_def println_def log_msg_def Let_def)
qed

lemma build_bctr_text:
  assumes "bctr_jump_table ctx = Some jt"
  shows "out (snd (build_bctr ctx)) = out ctx @ render_stmt (config ctx) (bctr_stmt (fn ctx) jt)"
  using assms
  by (simp add: build_bctr_def bctr_stmt_def emit_switch_cases_out r_def r_name_def println_def
      reset_switch_table_def Let_def split: prod.splits)

lemma map_of_zip_upt:
  "map_of (zip [0..<length xs] xs) k = (if k < length xs then Some (xs ! k) else None)"
proof (cases "k < length xs")
  case True
  then have "map_of (zip [0..<length xs] xs) ([0..<length xs] ! k) = Some (xs ! k)"
    by (intro map_of_zip_nth) simp_all
  then show ?thesis using True by simp
next
  case False
  then have "map_of (zip [0..<length xs] xs) k = None"
    by (subst map_of_zip_is_None) simp_all
  then show ?thesis using False by simp
qed

text \<open>
  C5. For a \<open>bctr\<close> with a bound jump table of \<open>n\<close> targets, all inside the owning
  function, the builder emits a switch on the index register whose case \<open>i\<close>, for
  every \<open>i < n\<close>, jumps to the label of \<open>targets[i]\<close>, and whose default case, taken
  for every index \<open>\<ge> n\<close>, traps. The builder returns true and releases the bound
  table.
\<close>

theorem build_bctr_switch:
  assumes jt: "bctr_jump_table ctx = Some jt"
    and inside: "\<forall>t \<in> set (targets jt). fn_base (fn ctx) \<le> t \<and> t < fn_end (fn ctx)"
  shows "fst (build_bctr ctx) = True \<and>
         switchTable (snd (build_bctr ctx)) = None \<and>
         out (snd (build_bctr ctx)) =
           out ctx @ render_stmt (config ctx)
             (Switch (unat (indexRegister jt))
                (zip [0..<length (targets jt)] (map GotoLabel (targets jt)))) \<and>
         (\<forall>s. unat (ucast (gpr s (unat (indexRegister jt))) :: u32) < length (targets jt) \<longrightarrow>
            exec_stmt (Switch (unat (indexRegister jt))
                (zip [0..<length (targets jt)] (map GotoLabel (targets jt)))) s =
              Jump (targets jt ! unat (ucast (gpr s (unat (indexRegister jt))) :: u32))) \<and>
         (\<forall>s. length (targets jt) \<le> unat (ucast (gpr s (unat (indexRegister jt))) :: u32) \<longrightarrow>
            exec_stmt (Switch (unat (indexRegister jt))
                (zip [0..<length (targets jt)] (map GotoLabel (targets jt)))) s = Trapped)"
proof -
  have acts: "map (switch_action (fn ctx)) (targets jt) = map GotoLabel (targets jt)"
    using inside by (auto simp add: switch_action_def not_less [symmetric])
  have st: "bctr_stmt (fn ctx) jt =
      Switch (unat (indexRegister jt)) (zip [0..<length (targets jt)] (map GotoLabel (targets jt)))"
    by (simp add: bctr_stmt_def acts)
  have a: "fst (build_bctr ctx) = True"
    using jt by (simp add: build_bctr_def Let_def split: prod.splits)
  have b: "switchTable (snd (build_bctr ctx)) = None"
    using jt by (simp add: build_bctr_def reset_switch_table_def Let_def split: prod.splits)
  have c: "out (snd (build_bctr ctx)) =
           out ctx @ render_stmt (config ctx)
             (Switch (unat (indexRegister jt))
                (zip [0..<length (targets jt)] (map GotoLabel (targets jt))))"
    using build_bctr_text [OF jt] st by simp
  have m: "\<And>k. map_of (zip [0..<length (targets jt)] (map GotoLabel (targets jt))) k =
      (if k < length (targets jt) then Some (GotoLabel (targets jt ! k)) else None)"
    using map_of_zip_upt [of "map GotoLabel (targets jt)"] by simp
  have d: "\<forall>s. unat (ucast (gpr s (unat (indexRegister jt))) :: u32) < length (targets jt) \<longrightarrow>
            exec_stmt (Switch (unat (indexRegister jt))
                (zip [0..<length (targets jt)] (map GotoLabel (targets jt)))) s =
              Jump (targets jt ! unat (ucast (gpr s (unat (indexRegister jt))) :: u32))"
    by (simp add: m)
  have e: "\<forall>s. length (targets jt) \<le> unat (ucast (gpr s (unat (indexRegister jt))) :: u32) \<longrightarrow>
            exec_stmt (Switch (unat (indexRegister jt))
                (zip [0..<length (targets jt)] (map GotoLabel (targets jt)))) s = Trapped"
    by (simp add: m)
  show ?thesis using a b c d e by blast
qed

text \<open>
  With \<open>indexRegister = r3\<close> and targets L0, L1, L2 = \<open>0x82001020\<close>, \<open>0x82001040\<close>,
  \<open>0x82001060\<close>: the text of the switch, the dispatch to L1 for r3 = 1, the trap for
  r3 = 3.
\<close>

theorem build_bctr_switch_witness:
  "out (snd (build_bctr example_bctr_ctx)) =
     tab @ ''switch (ctx.r3.u32) {'' @ newline @
     tab @ ''case 0:'' @ newline @
     tab @ tab @ ''goto loc_82001020;'' @ newline @
     tab @ ''case 1:'' @ newline @
     tab @ tab @ ''goto loc_82001040;'' @ newline @
     tab @ ''case 2:'' @ newline @
     tab @ tab @ ''goto loc_82001060;'' @ newline @
     tab @ ''default:'' @ newline @
     tab @ tab @ ''__builtin_trap(); // Switch case out of range'' @ newline @
     tab @ ''}'' @ newline \<and>
   exec_stmt (Switch 3 [(0, GotoLabel 0x82001020), (1, GotoLabel 0x82001040), (2, GotoLabel 0x82001060)])
     (zero_state\<lparr> gpr := (gpr zero_state)(3 := 1) \<rparr>) = Jump 0x82001040 \<and>
   exec_stmt (Switch 3 [(0, GotoLabel 0x82001020), (1, GotoLabel 0x82001040), (2, GotoLabel 0x82001060)])
     (zero_state\<lparr> gpr := (gpr zero_state)(3 := 3) \<rparr>) = Trapped"
proof -
  have jt: "bctr_jump_table example_bctr_ctx = Some example_jump_table"
    by (simp add: bctr_jump_table_def example_bctr_ctx_def example_ctx_def example_jump_table_def)
  have inside: "\<forall>t \<in> set (targets example_jump_table).
      fn_base (fn example_bctr_ctx) \<le> t \<and> t < fn_end (fn example_bctr_ctx)"
    by (simp add: example_bctr_ctx_def example_ctx_def example_jump_table_def example_fn_def)
  note th = build_bctr_switch [OF jt inside]
  have u: "[0..<3] = [0, 1, 2]" by (simp add: upt_rec)
  have sw: "Switch (unat (indexRegister example_jump_table))
      (zip [0..<length (targets example_jump_table)] (map GotoLabel (targets example_jump_table))) =
      Switch 3 [(0, GotoLabel 0x82001020), (1, GotoLabel 0x82001040), (2, GotoLabel 0x82001060)]"
    by (simp add: example_jump_table_def u)
  have o: "out (snd (build_bctr example_bctr_ctx)) =
      out example_bctr_ctx @ render_stmt (config example_bctr_ctx)
        (Switch 3 [(0, GotoLabel 0x82001020), (1, GotoLabel 0x82001040), (2, GotoLabel 0x82001060)])"
    using th sw by simp
  have j: "exec_stmt (Switch 3 [(0, GotoLabel 0x82001020), (1, GotoLabel 0x82001040), (2, GotoLabel 0x82001060)])
     (zero_state\<lparr> gpr := (gpr zero_state)(3 := 1) \<rparr>) = Jump 0x82001040"
    using th [THEN conjunct2, THEN conjunct2, THEN conjunct2, THEN conjunct1,
        THEN spec, of "zero_state\<lparr> gpr := (gpr zero_state)(3 := 1) \<rparr>"]
    by (simp add: sw example_jump_table_def)
  have t: "exec_stmt (Switch 3 [(0, GotoLabel 0x82001020), (1, GotoLabel 0x82001040), (2, GotoLabel 0x82001060)])
     (zero_state\<lparr> gpr := (gpr zero_state)(3 := 3) \<rparr>) = Trapped"
    using th [THEN conjunct2, THEN conjunct2, THEN conjunct2, THEN conjunct2,
        THEN spec, of "zero_state\<lparr> gpr := (gpr zero_state)(3 := 3) \<rparr>"]
    by (simp add: sw example_jump_table_def)
  have r: "out example_bctr_ctx @ render_stmt (config example_bctr_ctx)
        (Switch 3 [(0, GotoLabel 0x82001020), (1, GotoLabel 0x82001040), (2, GotoLabel 0x82001060)]) =
     tab @ ''switch (ctx.r3.u32) {'' @ newline @
     tab @ ''case 0:'' @ newline @
     tab @ tab @ ''goto loc_82001020;'' @ newline @
     tab @ ''case 1:'' @ newline @
     tab @ tab @ ''goto loc_82001040;'' @ newline @
     tab @ ''case 2:'' @ newline @
     tab @ tab @ ''goto loc_82001060;'' @ newline @
     tab @ ''default:'' @ newline @
     tab @ tab @ ''__builtin_trap(); // Switch case out of range'' @ newline @
     tab @ ''}'' @ newline"
    by (simp add: example_bctr_ctx_def example_ctx_def default_config_def r_name_def
        r_is_local_def fmt_eval)
  show ?thesis using o r j t by simp
qed

subsection \<open>Branches and function bounds\<close>

lemma emitBranchWithBoundsCheck_inside:
  assumes "fn_base (fn ctx) \<le> target" and "target < fn_end (fn ctx)"
  shows "emitBranchWithBoundsCheck ctx target cond nm =
     println ctx (tab @ ''if ('' @ cond @ '') goto loc_'' @ to_hex (unat target) @ '';'')"
  using assms by (auto simp add: emitBranchWithBoundsCheck_def)

lemma emitBranchWithBoundsCheck_outside:
  assumes "target < fn_base (fn ctx) \<or> fn_end (fn ctx) \<le> target"
  shows "out (emitBranchWithBoundsCheck ctx target cond nm) =
           out ctx @ tab @ ''if ('' @ cond @ '') { /* branch to 0x'' @ to_hex (unat target) @
             '' outside function */ return; }'' @ newline"
    and "logged (emitBranchWithBoundsCheck ctx target cond nm) =
           logged ctx @ [(LogWarn, nm @ '' at '' @ to_hex (unat (base ctx)) @
             '' branches outside function to '' @ to_hex (unat target))]"
  using assms by (auto simp add: emitBranchWithBoundsCheck_def println_def log_msg_def Let_def)

lemmas branch_eval = emitBranchWithBoundsCheck_def decrement_ctr_def ctr_def ctr_name_def
  cr_def cr_name_def println_def log_msg_def Let_def

text \<open>
  What each decrement-and-branch builder writes and logs: the decrement of CTR, then
  the conditional branch by the bounds of the function.
\<close>

lemma build_bdz_text:
  "out (snd (build_bdz ctx)) =
    out ctx @ tab @ ''--'' @ ctr_name (config ctx) @ ''.u64;'' @ newline @
    (if operand (insn ctx) 0 < fn_base (fn ctx) \<or> fn_end (fn ctx) \<le> operand (insn ctx) 0
     then tab @ ''if ('' @ ctr_name (config ctx) @ ''.u32 == 0'' @
            '') { /* branch to 0x'' @ to_hex (unat (operand (insn ctx) 0)) @
            '' outside function */ return; }'' @ newline
     else tab @ ''if ('' @ ctr_name (config ctx) @ ''.u32 == 0'' @
            '') goto loc_'' @ to_hex (unat (operand (insn ctx) 0)) @ '';'' @ newline)"
  by (simp add: build_bdz_def branch_eval split: prod.splits)

lemma build_bdz_logged:
  "logged (snd (build_bdz ctx)) =
    logged ctx @
    (if operand (insn ctx) 0 < fn_base (fn ctx) \<or> fn_end (fn ctx) \<le> operand (insn ctx) 0
     then [(LogWarn, ''bdz at '' @ to_hex (unat (base ctx)) @
            '' branches outside function to '' @ to_hex (unat (operand (insn ctx) 0)))]
     else [])"
  by (simp add: build_bdz_def branch_eval split: prod.splits)

lemma build_bdnz_text:
  "out (snd (build_bdnz ctx)) =
    out ctx @ tab @ ''--'' @ ctr_name (config ctx) @ ''.u64;'' @ newline @
    (if operand (insn ctx) 0 < fn_base (fn ctx) \<or> fn_end (fn ctx) \<le> operand (insn ctx) 0
     then tab @ ''if ('' @ ctr_name (config ctx) @ ''.u32 != 0'' @
            '') { /* branch to 0x'' @ to_hex (unat (operand (insn ctx) 0)) @
            '' outside function */ return; }'' @ newline
     else tab @ ''if ('' @ ctr_name (config ctx) @ ''.u32 != 0'' @
            '') goto loc_'' @ to_hex (unat (operand (insn ctx) 0)) @ '';'' @ newline)"
  by (simp add: build_bdnz_def branch_eval split: prod.splits)

lemma build_bdnz_logged:
  "logged (snd (build_bdnz ctx)) =
    logged ctx @
    (if operand (insn ctx) 0 < fn_base (fn ctx) \<or> fn_end (fn ctx) \<le> operand (insn ctx) 0
     then [(LogWarn, ''bdnz at '' @ to_hex (unat (base ctx)) @
            '' branches outside function to '' @ to_hex (unat (operand (insn ctx) 0)))]
     else [])"
  by (simp add: build_bdnz_def branch_eval split: prod.splits)

lemma build_bdnzf_text:
  "out (snd (build_bdnzf ctx)) =
    out ctx @ tab @ ''--'' @ ctr_name (config ctx) @ ''.u64;'' @ newline @
    (if operand (insn ctx) 1 < fn_base (fn ctx) \<or> fn_end (fn ctx) \<le> operand (insn ctx) 1
     then tab @ ''if ('' @ ctr_name (config ctx) @ ''.u32 != 0 && !'' @ cr_name (config ctx) (unat (operand (insn ctx) 0 div 4)) @ ''.'' @ crBitName (operand (insn ctx) 0) @
            '') { /* branch to 0x'' @ to_hex (unat (operand (insn ctx) 1)) @
            '' outside function */ return; }'' @ newline
     else tab @ ''if ('' @ ctr_name (config ctx) @ ''.u32 != 0 && !'' @ cr_name (config ctx) (unat (operand (insn ctx) 0 div 4)) @ ''.'' @ crBitName (operand (insn ctx) 0) @
            '') goto loc_'' @ to_hex (unat (operand (insn ctx) 1)) @ '';'' @ newline)"
  by (simp add: build_bdnzf_def branch_eval split: prod.splits)

lemma build_bdnzf_logged:
  "logged (snd (build_bdnzf ctx)) =
    logged ctx @
    (if operand (insn ctx) 1 < fn_base (fn ctx) \<or> fn_end (fn ctx) \<le> operand (insn ctx) 1
     then [(LogWarn, ''bdnzf at '' @ to_hex (unat (base ctx)) @
            '' branches outside function to '' @ to_hex (unat (operand (insn ctx) 1)))]
     else [])"
  by (simp add: build_bdnzf_def branch_eval split: prod.splits)

lemma build_bdnzt_text:
  "out (snd (build_bdnzt ctx)) =
    out ctx @ tab @ ''--'' @ ctr_name (config ctx) @ ''.u64;'' @ newline @
    (if operand (insn ctx) 1 < fn_base (fn ctx) \<or> fn_end (fn ctx) \<le> operand (insn ctx) 1
     then tab @ ''if ('' @ ctr_name (config ctx) @ ''.u32 != 0 && '' @ cr_name (config ctx) (unat (operand (insn ctx) 0 div 4)) @ ''.'' @ crBitName (operand (insn ctx) 0) @
            '') { /* branch to 0x'' @ to_hex (unat (operand (insn ctx) 1)) @
            '' outside function */ return; }'' @ newline
     else tab @ ''if ('' @ ctr_name (config ctx) @ ''.u32 != 0 && '' @ cr_name (config ctx) (unat (operand (insn ctx) 0 div 4)) @ ''.'' @ crBitName (operand (insn ctx) 0) @
            '') goto loc_'' @ to_hex (unat (operand (insn ctx) 1)) @ '';'' @ newline)"
  by (simp add: build_bdnzt_def branch_eval split: prod.splits)

lemma build_bdnzt_logged:
  "logged (snd (build_bdnzt ctx)) =
    logged ctx @
    (if operand (insn ctx) 1 < fn_base (fn ctx) \<or> fn_end (fn ctx) \<le> operand (insn ctx) 1
     then [(LogWarn, ''bdnzt at '' @ to_hex (unat (base ctx)) @
            '' branches outside function to '' @ to_hex (unat (operand (insn ctx) 1)))]
     else [])"
  by (simp add: build_bdnzt_def branch_eval split: prod.splits)

lemma build_bdzf_text:
  "out (snd (build_bdzf ctx)) =
    out ctx @ tab @ ''--'' @ ctr_name (config ctx) @ ''.u64;'' @ newline @
    (if operand (insn ctx) 1 < fn_base (fn ctx) \<or> fn_end (fn ctx) \<le> operand (insn ctx) 1
     then tab @ ''if ('' @ ctr_name (config ctx) @ ''.u32 == 0 && !'' @ cr_name (config ctx) (unat (operand (insn ctx) 0 div 4)) @ ''.'' @ crBitName (operand (insn ctx) 0) @
            '') { /* branch to 0x'' @ to_hex (unat (operand (insn ctx) 1)) @
            '' outside function */ return; }'' @ newline
     else tab @ ''if ('' @ ctr_name (config ctx) @ ''.u32 == 0 && !'' @ cr_name (config ctx) (unat (operand (insn ctx) 0 div 4)) @ ''.'' @ crBitName (operand (insn ctx) 0) @
            '') goto loc_'' @ to_hex (unat (operand (insn ctx) 1)) @ '';'' @ newline)"
  by (simp add: build_bdzf_def branch_eval split: prod.splits)

lemma build_bdzf_logged:
  "logged (snd (build_bdzf ctx)) =
    logged ctx @
    (if operand (insn ctx) 1 < fn_base (fn ctx) \<or> fn_end (fn ctx) \<le> operand (insn ctx) 1
     then [(LogWarn, ''bdzf at '' @ to_hex (unat (base ctx)) @
            '' branches outside function to '' @ to_hex (unat (operand (insn ctx) 1)))]
     else [])"
  by (simp add: build_bdzf_def branch_eval split: prod.splits)

text \<open>\<open>build_b\<close> by the classification of its target.\<close>

lemma build_b_cases:
  "classifyTarget ext (operand (insn ctx) 0) (base ctx) False = InternalLabel \<Longrightarrow>
     snd (build_b ext ctx) =
       println ctx (tab @ ''goto loc_'' @ to_hex (unat (operand (insn ctx) 0)) @ '';'')"
  "classifyTarget ext (operand (insn ctx) 0) (base ctx) False = Function \<or>
   classifyTarget ext (operand (insn ctx) 0) (base ctx) False = Import \<Longrightarrow>
     snd (build_b ext ctx) =
       println (emit_function_call ext ctx (operand (insn ctx) 0)) (tab @ ''return;'')"
  "classifyTarget ext (operand (insn ctx) 0) (base ctx) False = Unknown \<Longrightarrow>
   fn_base (fn ctx) \<le> operand (insn ctx) 0 \<and> operand (insn ctx) 0 < fn_end (fn ctx) \<Longrightarrow>
     snd (build_b ext ctx) =
       println ctx (tab @ ''goto loc_'' @ to_hex (unat (operand (insn ctx) 0)) @ '';'')"
  "classifyTarget ext (operand (insn ctx) 0) (base ctx) False = Unknown \<Longrightarrow>
   operand (insn ctx) 0 < fn_base (fn ctx) \<or> fn_end (fn ctx) \<le> operand (insn ctx) 0 \<Longrightarrow>
     snd (build_b ext ctx) =
       println (emit_function_call ext
                  (log_msg ctx LogWarn
                     (''Unresolved b target 0x'' @ to_hex8 (unat (operand (insn ctx) 0)) @
                      '' from 0x'' @ to_hex8 (unat (base ctx))))
                  (operand (insn ctx) 0))
         (tab @ ''return;'')"
  by (auto simp add: build_b_def Let_def log_msg_def)

text \<open>\<open>build_bl\<close>: the link register first, then by the classification of its target.\<close>

lemma build_bl_cases:
  "classifyTarget ext (operand (insn ctx) 0) (base ctx) True = InternalLabel \<Longrightarrow>
     out (snd (build_bl ext ctx)) =
       out ctx @
       (if skipLr (config ctx) then []
        else tab @ ''ctx.lr = 0x'' @ to_hex (unat (base ctx + 4)) @ '';'' @ newline) @
       tab @ ''goto loc_'' @ to_hex (unat (operand (insn ctx) 0)) @ '';'' @ newline"
  "classifyTarget ext (operand (insn ctx) 0) (base ctx) True = Function \<or>
   classifyTarget ext (operand (insn ctx) 0) (base ctx) True = Import \<Longrightarrow>
     snd (build_bl ext ctx) =
       (emit_function_call ext
          (if skipLr (config ctx) then ctx
           else println ctx (tab @ ''ctx.lr = 0x'' @ to_hex (unat (base ctx + 4)) @ '';''))
          (operand (insn ctx) 0))\<lparr> csrState := CSR_Unknown \<rparr>"
  "classifyTarget ext (operand (insn ctx) 0) (base ctx) True = Unknown \<Longrightarrow>
     out (snd (build_bl ext ctx)) =
       out ctx @
       (if skipLr (config ctx) then []
        else tab @ ''ctx.lr = 0x'' @ to_hex (unat (base ctx + 4)) @ '';'' @ newline) @
       tab @ ''// ERROR: unresolved bl target 0x'' @ to_hex8 (unat (operand (insn ctx) 0)) @ newline @
       tab @ ''REX_FATAL('' @ dquote @ ''Unresolved call from 0x'' @ to_hex8 (unat (base ctx)) @
         '' to 0x'' @ to_hex8 (unat (operand (insn ctx) 0)) @ dquote @ '');'' @ newline"
  "classifyTarget ext (operand (insn ctx) 0) (base ctx) True = Unknown \<Longrightarrow>
     logged (snd (build_bl ext ctx)) =
       logged ctx @ [(LogError, ''Unresolved bl target 0x'' @ to_hex8 (unat (operand (insn ctx) 0)) @
         '' from 0x'' @ to_hex8 (unat (base ctx)))]"
  by (auto simp add: build_bl_def Let_def println_def log_msg_def)
text \<open>
  C4, as amended. \<open>build_b\<close> emits its target by the graph's classification: an
  internal label as \<open>goto loc_<target>;\<close>, a function or import as the call of
  \<open>emit_function_call\<close> followed by \<open>return;\<close>, and an unclassified target by its
  bounds: inside \<open>[fn.base(), fn.end())\<close> as \<open>goto loc_<target>;\<close>, outside as a logged
  warning, the call of \<open>emit_function_call\<close> and \<open>return;\<close>. \<open>build_bl\<close> first
  writes \<open>ctx.lr = 0x<PC+4>;\<close> (unless \<open>skipLr\<close>), then emits an internal label as
  \<open>goto loc_<target>;\<close>, a function or import as the call of \<open>emit_function_call\<close>
  with no \<open>return;\<close> after it and the CSR state reset to unknown, and an unclassified
  target as a logged error, an error comment and a \<open>REX_FATAL\<close> stub. The
  decrement-and-branch builders \<open>bdz\<close>, \<open>bdnz\<close>, \<open>bdnzf\<close>, \<open>bdnzt\<close> and \<open>bdzf\<close>
  write \<open>--ctr.u64;\<close> and then, through \<open>emitBranchWithBoundsCheck\<close>, for a target
  inside the bounds \<open>if (<cond>) goto loc_<target>;\<close>, and for a target outside a logged
  warning and \<open>if (<cond>) { /* branch to 0x<target> outside function */ return; }\<close>,
  with no call.
\<close>

theorem branch_target_emission:
  "(classifyTarget ext (operand (insn ctx) 0) (base ctx) False = InternalLabel \<longrightarrow>
      snd (build_b ext ctx) =
        println ctx (tab @ ''goto loc_'' @ to_hex (unat (operand (insn ctx) 0)) @ '';'')) \<and>
   (classifyTarget ext (operand (insn ctx) 0) (base ctx) False = Function \<or>
    classifyTarget ext (operand (insn ctx) 0) (base ctx) False = Import \<longrightarrow>
      snd (build_b ext ctx) =
        println (emit_function_call ext ctx (operand (insn ctx) 0)) (tab @ ''return;'')) \<and>
   (classifyTarget ext (operand (insn ctx) 0) (base ctx) False = Unknown \<and>
    fn_base (fn ctx) \<le> operand (insn ctx) 0 \<and> operand (insn ctx) 0 < fn_end (fn ctx) \<longrightarrow>
      snd (build_b ext ctx) =
        println ctx (tab @ ''goto loc_'' @ to_hex (unat (operand (insn ctx) 0)) @ '';'')) \<and>
   (classifyTarget ext (operand (insn ctx) 0) (base ctx) False = Unknown \<and>
    (operand (insn ctx) 0 < fn_base (fn ctx) \<or> fn_end (fn ctx) \<le> operand (insn ctx) 0) \<longrightarrow>
      snd (build_b ext ctx) =
        println (emit_function_call ext
                   (log_msg ctx LogWarn
                      (''Unresolved b target 0x'' @ to_hex8 (unat (operand (insn ctx) 0)) @
                       '' from 0x'' @ to_hex8 (unat (base ctx))))
                   (operand (insn ctx) 0))
          (tab @ ''return;'')) \<and>
   (classifyTarget ext (operand (insn ctx) 0) (base ctx) True = InternalLabel \<longrightarrow>
      out (snd (build_bl ext ctx)) =
        out ctx @
        (if skipLr (config ctx) then []
         else tab @ ''ctx.lr = 0x'' @ to_hex (unat (base ctx + 4)) @ '';'' @ newline) @
        tab @ ''goto loc_'' @ to_hex (unat (operand (insn ctx) 0)) @ '';'' @ newline) \<and>
   (classifyTarget ext (operand (insn ctx) 0) (base ctx) True = Function \<or>
    classifyTarget ext (operand (insn ctx) 0) (base ctx) True = Import \<longrightarrow>
      snd (build_bl ext ctx) =
        (emit_function_call ext
           (if skipLr (config ctx) then ctx
            else println ctx (tab @ ''ctx.lr = 0x'' @ to_hex (unat (base ctx + 4)) @ '';''))
           (operand (insn ctx) 0))\<lparr> csrState := CSR_Unknown \<rparr>) \<and>
   (classifyTarget ext (operand (insn ctx) 0) (base ctx) True = Unknown \<longrightarrow>
      out (snd (build_bl ext ctx)) =
        out ctx @
        (if skipLr (config ctx) then []
         else tab @ ''ctx.lr = 0x'' @ to_hex (unat (base ctx + 4)) @ '';'' @ newline) @
        tab @ ''// ERROR: unresolved bl target 0x'' @ to_hex8 (unat (operand (insn ctx) 0)) @ newline @
        tab @ ''REX_FATAL('' @ dquote @ ''Unresolved call from 0x'' @ to_hex8 (unat (base ctx)) @
          '' to 0x'' @ to_hex8 (unat (operand (insn ctx) 0)) @ dquote @ '');'' @ newline \<and>
      logged (snd (build_bl ext ctx)) =
        logged ctx @ [(LogError, ''Unresolved bl target 0x'' @ to_hex8 (unat (operand (insn ctx) 0)) @
          '' from 0x'' @ to_hex8 (unat (base ctx)))]) \<and>
   (fn_base (fn ctx) \<le> target \<and> target < fn_end (fn ctx) \<longrightarrow>
      out (emitBranchWithBoundsCheck ctx target cond nm) =
        out ctx @ tab @ ''if ('' @ cond @ '') goto loc_'' @ to_hex (unat target) @ '';'' @ newline) \<and>
   (target < fn_base (fn ctx) \<or> fn_end (fn ctx) \<le> target \<longrightarrow>
      out (emitBranchWithBoundsCheck ctx target cond nm) =
        out ctx @ tab @ ''if ('' @ cond @ '') { /* branch to 0x'' @ to_hex (unat target) @
          '' outside function */ return; }'' @ newline \<and>
      logged (emitBranchWithBoundsCheck ctx target cond nm) =
        logged ctx @ [(LogWarn, nm @ '' at '' @ to_hex (unat (base ctx)) @
          '' branches outside function to '' @ to_hex (unat target))]) \<and>
   out (snd (build_bdz ctx)) =
     out ctx @ tab @ ''--'' @ ctr_name (config ctx) @ ''.u64;'' @ newline @
     (if operand (insn ctx) 0 < fn_base (fn ctx) \<or> fn_end (fn ctx) \<le> operand (insn ctx) 0
      then tab @ ''if ('' @ ctr_name (config ctx) @ ''.u32 == 0'' @
             '') { /* branch to 0x'' @ to_hex (unat (operand (insn ctx) 0)) @
             '' outside function */ return; }'' @ newline
      else tab @ ''if ('' @ ctr_name (config ctx) @ ''.u32 == 0'' @
             '') goto loc_'' @ to_hex (unat (operand (insn ctx) 0)) @ '';'' @ newline) \<and>
   logged (snd (build_bdz ctx)) =
     logged ctx @
     (if operand (insn ctx) 0 < fn_base (fn ctx) \<or> fn_end (fn ctx) \<le> operand (insn ctx) 0
      then [(LogWarn, ''bdz at '' @ to_hex (unat (base ctx)) @
             '' branches outside function to '' @ to_hex (unat (operand (insn ctx) 0)))]
      else []) \<and>
   out (snd (build_bdnz ctx)) =
     out ctx @ tab @ ''--'' @ ctr_name (config ctx) @ ''.u64;'' @ newline @
     (if operand (insn ctx) 0 < fn_base (fn ctx) \<or> fn_end (fn ctx) \<le> operand (insn ctx) 0
      then tab @ ''if ('' @ ctr_name (config ctx) @ ''.u32 != 0'' @
             '') { /* branch to 0x'' @ to_hex (unat (operand (insn ctx) 0)) @
             '' outside function */ return; }'' @ newline
      else tab @ ''if ('' @ ctr_name (config ctx) @ ''.u32 != 0'' @
             '') goto loc_'' @ to_hex (unat (operand (insn ctx) 0)) @ '';'' @ newline) \<and>
   logged (snd (build_bdnz ctx)) =
     logged ctx @
     (if operand (insn ctx) 0 < fn_base (fn ctx) \<or> fn_end (fn ctx) \<le> operand (insn ctx) 0
      then [(LogWarn, ''bdnz at '' @ to_hex (unat (base ctx)) @
             '' branches outside function to '' @ to_hex (unat (operand (insn ctx) 0)))]
      else []) \<and>
   out (snd (build_bdnzf ctx)) =
     out ctx @ tab @ ''--'' @ ctr_name (config ctx) @ ''.u64;'' @ newline @
     (if operand (insn ctx) 1 < fn_base (fn ctx) \<or> fn_end (fn ctx) \<le> operand (insn ctx) 1
      then tab @ ''if ('' @ ctr_name (config ctx) @ ''.u32 != 0 && !'' @ cr_name (config ctx) (unat (operand (insn ctx) 0 div 4)) @ ''.'' @ crBitName (operand (insn ctx) 0) @
             '') { /* branch to 0x'' @ to_hex (unat (operand (insn ctx) 1)) @
             '' outside function */ return; }'' @ newline
      else tab @ ''if ('' @ ctr_name (config ctx) @ ''.u32 != 0 && !'' @ cr_name (config ctx) (unat (operand (insn ctx) 0 div 4)) @ ''.'' @ crBitName (operand (insn ctx) 0) @
             '') goto loc_'' @ to_hex (unat (operand (insn ctx) 1)) @ '';'' @ newline) \<and>
   logged (snd (build_bdnzf ctx)) =
     logged ctx @
     (if operand (insn ctx) 1 < fn_base (fn ctx) \<or> fn_end (fn ctx) \<le> operand (insn ctx) 1
      then [(LogWarn, ''bdnzf at '' @ to_hex (unat (base ctx)) @
             '' branches outside function to '' @ to_hex (unat (operand (insn ctx) 1)))]
      else []) \<and>
   out (snd (build_bdnzt ctx)) =
     out ctx @ tab @ ''--'' @ ctr_name (config ctx) @ ''.u64;'' @ newline @
     (if operand (insn ctx) 1 < fn_base (fn ctx) \<or> fn_end (fn ctx) \<le> operand (insn ctx) 1
      then tab @ ''if ('' @ ctr_name (config ctx) @ ''.u32 != 0 && '' @ cr_name (config ctx) (unat (operand (insn ctx) 0 div 4)) @ ''.'' @ crBitName (operand (insn ctx) 0) @
             '') { /* branch to 0x'' @ to_hex (unat (operand (insn ctx) 1)) @
             '' outside function */ return; }'' @ newline
      else tab @ ''if ('' @ ctr_name (config ctx) @ ''.u32 != 0 && '' @ cr_name (config ctx) (unat (operand (insn ctx) 0 div 4)) @ ''.'' @ crBitName (operand (insn ctx) 0) @
             '') goto loc_'' @ to_hex (unat (operand (insn ctx) 1)) @ '';'' @ newline) \<and>
   logged (snd (build_bdnzt ctx)) =
     logged ctx @
     (if operand (insn ctx) 1 < fn_base (fn ctx) \<or> fn_end (fn ctx) \<le> operand (insn ctx) 1
      then [(LogWarn, ''bdnzt at '' @ to_hex (unat (base ctx)) @
             '' branches outside function to '' @ to_hex (unat (operand (insn ctx) 1)))]
      else []) \<and>
   out (snd (build_bdzf ctx)) =
     out ctx @ tab @ ''--'' @ ctr_name (config ctx) @ ''.u64;'' @ newline @
     (if operand (insn ctx) 1 < fn_base (fn ctx) \<or> fn_end (fn ctx) \<le> operand (insn ctx) 1
      then tab @ ''if ('' @ ctr_name (config ctx) @ ''.u32 == 0 && !'' @ cr_name (config ctx) (unat (operand (insn ctx) 0 div 4)) @ ''.'' @ crBitName (operand (insn ctx) 0) @
             '') { /* branch to 0x'' @ to_hex (unat (operand (insn ctx) 1)) @
             '' outside function */ return; }'' @ newline
      else tab @ ''if ('' @ ctr_name (config ctx) @ ''.u32 == 0 && !'' @ cr_name (config ctx) (unat (operand (insn ctx) 0 div 4)) @ ''.'' @ crBitName (operand (insn ctx) 0) @
             '') goto loc_'' @ to_hex (unat (operand (insn ctx) 1)) @ '';'' @ newline) \<and>
   logged (snd (build_bdzf ctx)) =
     logged ctx @
     (if operand (insn ctx) 1 < fn_base (fn ctx) \<or> fn_end (fn ctx) \<le> operand (insn ctx) 1
      then [(LogWarn, ''bdzf at '' @ to_hex (unat (base ctx)) @
             '' branches outside function to '' @ to_hex (unat (operand (insn ctx) 1)))]
      else [])"
proof -
  have a: "(classifyTarget ext (operand (insn ctx) 0) (base ctx) False = InternalLabel \<longrightarrow>
      snd (build_b ext ctx) =
        println ctx (tab @ ''goto loc_'' @ to_hex (unat (operand (insn ctx) 0)) @ '';''))"
    using build_b_cases(1) [of ext ctx] by blast
  have b: "(classifyTarget ext (operand (insn ctx) 0) (base ctx) False = Function \<or>
    classifyTarget ext (operand (insn ctx) 0) (base ctx) False = Import \<longrightarrow>
      snd (build_b ext ctx) =
        println (emit_function_call ext ctx (operand (insn ctx) 0)) (tab @ ''return;''))"
    using build_b_cases(2) [of ext ctx] by blast
  have c: "(classifyTarget ext (operand (insn ctx) 0) (base ctx) False = Unknown \<and>
    fn_base (fn ctx) \<le> operand (insn ctx) 0 \<and> operand (insn ctx) 0 < fn_end (fn ctx) \<longrightarrow>
      snd (build_b ext ctx) =
        println ctx (tab @ ''goto loc_'' @ to_hex (unat (operand (insn ctx) 0)) @ '';''))"
    using build_b_cases(3) [of ext ctx] by blast
  have d: "(classifyTarget ext (operand (insn ctx) 0) (base ctx) False = Unknown \<and>
    (operand (insn ctx) 0 < fn_base (fn ctx) \<or> fn_end (fn ctx) \<le> operand (insn ctx) 0) \<longrightarrow>
      snd (build_b ext ctx) =
        println (emit_function_call ext
                   (log_msg ctx LogWarn
                      (''Unresolved b target 0x'' @ to_hex8 (unat (operand (insn ctx) 0)) @
                       '' from 0x'' @ to_hex8 (unat (base ctx))))
                   (operand (insn ctx) 0))
          (tab @ ''return;''))"
    using build_b_cases(4) [of ext ctx] by blast
  have e: "(classifyTarget ext (operand (insn ctx) 0) (base ctx) True = InternalLabel \<longrightarrow>
      out (snd (build_bl ext ctx)) =
        out ctx @
        (if skipLr (config ctx) then []
         else tab @ ''ctx.lr = 0x'' @ to_hex (unat (base ctx + 4)) @ '';'' @ newline) @
        tab @ ''goto loc_'' @ to_hex (unat (operand (insn ctx) 0)) @ '';'' @ newline)"
    using build_bl_cases(1) [of ext ctx] by blast
  have f: "(classifyTarget ext (operand (insn ctx) 0) (base ctx) True = Function \<or>
    classifyTarget ext (operand (insn ctx) 0) (base ctx) True = Import \<longrightarrow>
      snd (build_bl ext ctx) =
        (emit_function_call ext
           (if skipLr (config ctx) then ctx
            else println ctx (tab @ ''ctx.lr = 0x'' @ to_hex (unat (base ctx + 4)) @ '';''))
           (operand (insn ctx) 0))\<lparr> csrState := CSR_Unknown \<rparr>)"
    using build_bl_cases(2) [of ext ctx] by blast
  have g: "(classifyTarget ext (operand (insn ctx) 0) (base ctx) True = Unknown \<longrightarrow>
      out (snd (build_bl ext ctx)) =
        out ctx @
        (if skipLr (config ctx) then []
         else tab @ ''ctx.lr = 0x'' @ to_hex (unat (base ctx + 4)) @ '';'' @ newline) @
        tab @ ''// ERROR: unresolved bl target 0x'' @ to_hex8 (unat (operand (insn ctx) 0)) @ newline @
        tab @ ''REX_FATAL('' @ dquote @ ''Unresolved call from 0x'' @ to_hex8 (unat (base ctx)) @
          '' to 0x'' @ to_hex8 (unat (operand (insn ctx) 0)) @ dquote @ '');'' @ newline \<and>
      logged (snd (build_bl ext ctx)) =
        logged ctx @ [(LogError, ''Unresolved bl target 0x'' @ to_hex8 (unat (operand (insn ctx) 0)) @
          '' from 0x'' @ to_hex8 (unat (base ctx)))])"
    using build_bl_cases(3) [of ext ctx] build_bl_cases(4) [of ext ctx] by blast
  have h: "(fn_base (fn ctx) \<le> target \<and> target < fn_end (fn ctx) \<longrightarrow>
      out (emitBranchWithBoundsCheck ctx target cond nm) =
        out ctx @ tab @ ''if ('' @ cond @ '') goto loc_'' @ to_hex (unat target) @ '';'' @ newline)"
    by (simp add: emitBranchWithBoundsCheck_inside println_def)
  have i: "(target < fn_base (fn ctx) \<or> fn_end (fn ctx) \<le> target \<longrightarrow>
      out (emitBranchWithBoundsCheck ctx target cond nm) =
        out ctx @ tab @ ''if ('' @ cond @ '') { /* branch to 0x'' @ to_hex (unat target) @
          '' outside function */ return; }'' @ newline \<and>
      logged (emitBranchWithBoundsCheck ctx target cond nm) =
        logged ctx @ [(LogWarn, nm @ '' at '' @ to_hex (unat (base ctx)) @
          '' branches outside function to '' @ to_hex (unat target))])"
    using emitBranchWithBoundsCheck_outside [of target ctx cond nm] by blast
  have j: "out (snd (build_bdz ctx)) =
     out ctx @ tab @ ''--'' @ ctr_name (config ctx) @ ''.u64;'' @ newline @
     (if operand (insn ctx) 0 < fn_base (fn ctx) \<or> fn_end (fn ctx) \<le> operand (insn ctx) 0
      then tab @ ''if ('' @ ctr_name (config ctx) @ ''.u32 == 0'' @
             '') { /* branch to 0x'' @ to_hex (unat (operand (insn ctx) 0)) @
             '' outside function */ return; }'' @ newline
      else tab @ ''if ('' @ ctr_name (config ctx) @ ''.u32 == 0'' @
             '') goto loc_'' @ to_hex (unat (operand (insn ctx) 0)) @ '';'' @ newline)"
    by (rule build_bdz_text)
  have k: "logged (snd (build_bdz ctx)) =
     logged ctx @
     (if operand (insn ctx) 0 < fn_base (fn ctx) \<or> fn_end (fn ctx) \<le> operand (insn ctx) 0
      then [(LogWarn, ''bdz at '' @ to_hex (unat (base ctx)) @
             '' branches outside function to '' @ to_hex (unat (operand (insn ctx) 0)))]
      else [])"
    by (rule build_bdz_logged)
  have l: "out (snd (build_bdnz ctx)) =
     out ctx @ tab @ ''--'' @ ctr_name (config ctx) @ ''.u64;'' @ newline @
     (if operand (insn ctx) 0 < fn_base (fn ctx) \<or> fn_end (fn ctx) \<le> operand (insn ctx) 0
      then tab @ ''if ('' @ ctr_name (config ctx) @ ''.u32 != 0'' @
             '') { /* branch to 0x'' @ to_hex (unat (operand (insn ctx) 0)) @
             '' outside function */ return; }'' @ newline
      else tab @ ''if ('' @ ctr_name (config ctx) @ ''.u32 != 0'' @
             '') goto loc_'' @ to_hex (unat (operand (insn ctx) 0)) @ '';'' @ newline)"
    by (rule build_bdnz_text)
  have m: "logged (snd (build_bdnz ctx)) =
     logged ctx @
     (if operand (insn ctx) 0 < fn_base (fn ctx) \<or> fn_end (fn ctx) \<le> operand (insn ctx) 0
      then [(LogWarn, ''bdnz at '' @ to_hex (unat (base ctx)) @
             '' branches outside function to '' @ to_hex (unat (operand (insn ctx) 0)))]
      else [])"
    by (rule build_bdnz_logged)
  have n: "out (snd (build_bdnzf ctx)) =
     out ctx @ tab @ ''--'' @ ctr_name (config ctx) @ ''.u64;'' @ newline @
     (if operand (insn ctx) 1 < fn_base (fn ctx) \<or> fn_end (fn ctx) \<le> operand (insn ctx) 1
      then tab @ ''if ('' @ ctr_name (config ctx) @ ''.u32 != 0 && !'' @ cr_name (config ctx) (unat (operand (insn ctx) 0 div 4)) @ ''.'' @ crBitName (operand (insn ctx) 0) @
             '') { /* branch to 0x'' @ to_hex (unat (operand (insn ctx) 1)) @
             '' outside function */ return; }'' @ newline
      else tab @ ''if ('' @ ctr_name (config ctx) @ ''.u32 != 0 && !'' @ cr_name (config ctx) (unat (operand (insn ctx) 0 div 4)) @ ''.'' @ crBitName (operand (insn ctx) 0) @
             '') goto loc_'' @ to_hex (unat (operand (insn ctx) 1)) @ '';'' @ newline)"
    by (rule build_bdnzf_text)
  have o: "logged (snd (build_bdnzf ctx)) =
     logged ctx @
     (if operand (insn ctx) 1 < fn_base (fn ctx) \<or> fn_end (fn ctx) \<le> operand (insn ctx) 1
      then [(LogWarn, ''bdnzf at '' @ to_hex (unat (base ctx)) @
             '' branches outside function to '' @ to_hex (unat (operand (insn ctx) 1)))]
      else [])"
    by (rule build_bdnzf_logged)
  have p: "out (snd (build_bdnzt ctx)) =
     out ctx @ tab @ ''--'' @ ctr_name (config ctx) @ ''.u64;'' @ newline @
     (if operand (insn ctx) 1 < fn_base (fn ctx) \<or> fn_end (fn ctx) \<le> operand (insn ctx) 1
      then tab @ ''if ('' @ ctr_name (config ctx) @ ''.u32 != 0 && '' @ cr_name (config ctx) (unat (operand (insn ctx) 0 div 4)) @ ''.'' @ crBitName (operand (insn ctx) 0) @
             '') { /* branch to 0x'' @ to_hex (unat (operand (insn ctx) 1)) @
             '' outside function */ return; }'' @ newline
      else tab @ ''if ('' @ ctr_name (config ctx) @ ''.u32 != 0 && '' @ cr_name (config ctx) (unat (operand (insn ctx) 0 div 4)) @ ''.'' @ crBitName (operand (insn ctx) 0) @
             '') goto loc_'' @ to_hex (unat (operand (insn ctx) 1)) @ '';'' @ newline)"
    by (rule build_bdnzt_text)
  have q: "logged (snd (build_bdnzt ctx)) =
     logged ctx @
     (if operand (insn ctx) 1 < fn_base (fn ctx) \<or> fn_end (fn ctx) \<le> operand (insn ctx) 1
      then [(LogWarn, ''bdnzt at '' @ to_hex (unat (base ctx)) @
             '' branches outside function to '' @ to_hex (unat (operand (insn ctx) 1)))]
      else [])"
    by (rule build_bdnzt_logged)
  have r: "out (snd (build_bdzf ctx)) =
     out ctx @ tab @ ''--'' @ ctr_name (config ctx) @ ''.u64;'' @ newline @
     (if operand (insn ctx) 1 < fn_base (fn ctx) \<or> fn_end (fn ctx) \<le> operand (insn ctx) 1
      then tab @ ''if ('' @ ctr_name (config ctx) @ ''.u32 == 0 && !'' @ cr_name (config ctx) (unat (operand (insn ctx) 0 div 4)) @ ''.'' @ crBitName (operand (insn ctx) 0) @
             '') { /* branch to 0x'' @ to_hex (unat (operand (insn ctx) 1)) @
             '' outside function */ return; }'' @ newline
      else tab @ ''if ('' @ ctr_name (config ctx) @ ''.u32 == 0 && !'' @ cr_name (config ctx) (unat (operand (insn ctx) 0 div 4)) @ ''.'' @ crBitName (operand (insn ctx) 0) @
             '') goto loc_'' @ to_hex (unat (operand (insn ctx) 1)) @ '';'' @ newline)"
    by (rule build_bdzf_text)
  have s: "logged (snd (build_bdzf ctx)) =
     logged ctx @
     (if operand (insn ctx) 1 < fn_base (fn ctx) \<or> fn_end (fn ctx) \<le> operand (insn ctx) 1
      then [(LogWarn, ''bdzf at '' @ to_hex (unat (base ctx)) @
             '' branches outside function to '' @ to_hex (unat (operand (insn ctx) 1)))]
      else [])"
    by (rule build_bdzf_logged)
  show ?thesis
    by (intro conjI; (rule a b c d e f g h i j k l m n o p q r s)?)
qed

text \<open>
  In the function \<open>0x82001000..0x82001100\<close>, from PC \<open>0x82001080\<close>: an unclassified
  \<open>b\<close> to \<open>0x82002000\<close> (outside) and to \<open>0x82001020\<close> (inside); a \<open>bl\<close> to
  \<open>0x82002000\<close>, once known to the graph as a function and once unclassified; and the
  five decrement-and-branch builders, on targets outside and inside.
\<close>

theorem branch_target_emission_witness:
  "out (snd (build_b example_ext (example_ctx \<lparr> opcode_name = ''b'', operands = [0x82002000] \<rparr> 0x82001080))) =
     tab @ ''sub_82002000(ctx, base);'' @ newline @ tab @ ''return;'' @ newline \<and>
   out (snd (build_b example_ext (example_ctx \<lparr> opcode_name = ''b'', operands = [0x82001020] \<rparr> 0x82001080))) =
     tab @ ''goto loc_82001020;'' @ newline \<and>
   out (snd (build_bl example_graph_ext (example_ctx \<lparr> opcode_name = ''bl'', operands = [0x82002000] \<rparr> 0x82001080))) =
     tab @ ''ctx.lr = 0x82001084;'' @ newline @ tab @ ''sub_82002000(ctx, base);'' @ newline \<and>
   out (snd (build_bl example_ext (example_ctx \<lparr> opcode_name = ''bl'', operands = [0x82002000] \<rparr> 0x82001080))) =
     tab @ ''ctx.lr = 0x82001084;'' @ newline @
     tab @ ''// ERROR: unresolved bl target 0x82002000'' @ newline @
     tab @ ''REX_FATAL('' @ dquote @ ''Unresolved call from 0x82001080 to 0x82002000'' @ dquote @ '');'' @ newline \<and>
   out (snd (build_bdz (example_ctx \<lparr> opcode_name = ''bdz'', operands = [0x82002000] \<rparr> 0x82001080))) =
     tab @ ''--ctx.ctr.u64;'' @ newline @
     tab @ ''if (ctx.ctr.u32 == 0) { /* branch to 0x82002000 outside function */ return; }'' @ newline \<and>
   out (snd (build_bdnz (example_ctx \<lparr> opcode_name = ''bdnz'', operands = [0x82002000] \<rparr> 0x82001080))) =
     tab @ ''--ctx.ctr.u64;'' @ newline @
     tab @ ''if (ctx.ctr.u32 != 0) { /* branch to 0x82002000 outside function */ return; }'' @ newline \<and>
   out (snd (build_bdnz (example_ctx \<lparr> opcode_name = ''bdnz'', operands = [0x82001020] \<rparr> 0x82001080))) =
     tab @ ''--ctx.ctr.u64;'' @ newline @
     tab @ ''if (ctx.ctr.u32 != 0) goto loc_82001020;'' @ newline \<and>
   out (snd (build_bdnzf (example_ctx \<lparr> opcode_name = ''bdnzf'', operands = [2, 0x82002000] \<rparr> 0x82001080))) =
     tab @ ''--ctx.ctr.u64;'' @ newline @
     tab @ ''if (ctx.ctr.u32 != 0 && !ctx.cr0.eq) { /* branch to 0x82002000 outside function */ return; }'' @ newline \<and>
   out (snd (build_bdnzt (example_ctx \<lparr> opcode_name = ''bdnzt'', operands = [6, 0x82001020] \<rparr> 0x82001080))) =
     tab @ ''--ctx.ctr.u64;'' @ newline @
     tab @ ''if (ctx.ctr.u32 != 0 && ctx.cr1.eq) goto loc_82001020;'' @ newline \<and>
   out (snd (build_bdzf (example_ctx \<lparr> opcode_name = ''bdzf'', operands = [1, 0x82002000] \<rparr> 0x82001080))) =
     tab @ ''--ctx.ctr.u64;'' @ newline @
     tab @ ''if (ctx.ctr.u32 == 0 && !ctx.cr0.gt) { /* branch to 0x82002000 outside function */ return; }'' @ newline \<and>
   logged (snd (build_bdzf (example_ctx \<lparr> opcode_name = ''bdzf'', operands = [1, 0x82002000] \<rparr> 0x82001080))) =
     [(LogWarn, ''bdzf at 82001080 branches outside function to 82002000'')]"
proof -
  note ev = example_ext_def example_graph_ext_def example_ctx_def example_fn_def
    default_config_def operand_def println_def log_msg_def ctr_name_def cr_name_def
    crBitName_def fmt_eval
  have a: "out (snd (build_b example_ext (example_ctx \<lparr> opcode_name = ''b'', operands = [0x82002000] \<rparr> 0x82001080))) =
     tab @ ''sub_82002000(ctx, base);'' @ newline @ tab @ ''return;'' @ newline"
    using branch_target_emission [of example_ext
        "example_ctx \<lparr> opcode_name = ''b'', operands = [0x82002000] \<rparr> 0x82001080" 0 "''''" "''''"]
    by (simp add: ev)
  have b: "out (snd (build_b example_ext (example_ctx \<lparr> opcode_name = ''b'', operands = [0x82001020] \<rparr> 0x82001080))) =
     tab @ ''goto loc_82001020;'' @ newline"
    using branch_target_emission [of example_ext
        "example_ctx \<lparr> opcode_name = ''b'', operands = [0x82001020] \<rparr> 0x82001080" 0 "''''" "''''"]
    by (simp add: ev)
  have c: "out (snd (build_bl example_graph_ext (example_ctx \<lparr> opcode_name = ''bl'', operands = [0x82002000] \<rparr> 0x82001080))) =
     tab @ ''ctx.lr = 0x82001084;'' @ newline @ tab @ ''sub_82002000(ctx, base);'' @ newline"
    using branch_target_emission [of example_graph_ext
        "example_ctx \<lparr> opcode_name = ''bl'', operands = [0x82002000] \<rparr> 0x82001080" 0 "''''" "''''"]
    by (simp add: ev)
  have d: "out (snd (build_bl example_ext (example_ctx \<lparr> opcode_name = ''bl'', operands = [0x82002000] \<rparr> 0x82001080))) =
     tab @ ''ctx.lr = 0x82001084;'' @ newline @
     tab @ ''// ERROR: unresolved bl target 0x82002000'' @ newline @
     tab @ ''REX_FATAL('' @ dquote @ ''Unresolved call from 0x82001080 to 0x82002000'' @ dquote @ '');'' @ newline"
    using branch_target_emission [of example_ext
        "example_ctx \<lparr> opcode_name = ''bl'', operands = [0x82002000] \<rparr> 0x82001080" 0 "''''" "''''"]
    by (simp add: ev)
  have e: "out (snd (build_bdz (example_ctx \<lparr> opcode_name = ''bdz'', operands = [0x82002000] \<rparr> 0x82001080))) =
     tab @ ''--ctx.ctr.u64;'' @ newline @
     tab @ ''if (ctx.ctr.u32 == 0) { /* branch to 0x82002000 outside function */ return; }'' @ newline"
    using branch_target_emission [of example_ext
        "example_ctx \<lparr> opcode_name = ''bdz'', operands = [0x82002000] \<rparr> 0x82001080" 0 "''''" "''''"]
    by (simp add: ev)
  have f: "out (snd (build_bdnz (example_ctx \<lparr> opcode_name = ''bdnz'', operands = [0x82002000] \<rparr> 0x82001080))) =
     tab @ ''--ctx.ctr.u64;'' @ newline @
     tab @ ''if (ctx.ctr.u32 != 0) { /* branch to 0x82002000 outside function */ return; }'' @ newline"
    using branch_target_emission [of example_ext
        "example_ctx \<lparr> opcode_name = ''bdnz'', operands = [0x82002000] \<rparr> 0x82001080" 0 "''''" "''''"]
    by (simp add: ev)
  have g: "out (snd (build_bdnz (example_ctx \<lparr> opcode_name = ''bdnz'', operands = [0x82001020] \<rparr> 0x82001080))) =
     tab @ ''--ctx.ctr.u64;'' @ newline @
     tab @ ''if (ctx.ctr.u32 != 0) goto loc_82001020;'' @ newline"
    using branch_target_emission [of example_ext
        "example_ctx \<lparr> opcode_name = ''bdnz'', operands = [0x82001020] \<rparr> 0x82001080" 0 "''''" "''''"]
    by (simp add: ev)
  have h: "out (snd (build_bdnzf (example_ctx \<lparr> opcode_name = ''bdnzf'', operands = [2, 0x82002000] \<rparr> 0x82001080))) =
     tab @ ''--ctx.ctr.u64;'' @ newline @
     tab @ ''if (ctx.ctr.u32 != 0 && !ctx.cr0.eq) { /* branch to 0x82002000 outside function */ return; }'' @ newline"
    using branch_target_emission [of example_ext
        "example_ctx \<lparr> opcode_name = ''bdnzf'', operands = [2, 0x82002000] \<rparr> 0x82001080" 0 "''''" "''''"]
    by (simp add: ev)
  have i: "out (snd (build_bdnzt (example_ctx \<lparr> opcode_name = ''bdnzt'', operands = [6, 0x82001020] \<rparr> 0x82001080))) =
     tab @ ''--ctx.ctr.u64;'' @ newline @
     tab @ ''if (ctx.ctr.u32 != 0 && ctx.cr1.eq) goto loc_82001020;'' @ newline"
    using branch_target_emission [of example_ext
        "example_ctx \<lparr> opcode_name = ''bdnzt'', operands = [6, 0x82001020] \<rparr> 0x82001080" 0 "''''" "''''"]
    by (simp add: ev)
  have j: "out (snd (build_bdzf (example_ctx \<lparr> opcode_name = ''bdzf'', operands = [1, 0x82002000] \<rparr> 0x82001080))) =
     tab @ ''--ctx.ctr.u64;'' @ newline @
     tab @ ''if (ctx.ctr.u32 == 0 && !ctx.cr0.gt) { /* branch to 0x82002000 outside function */ return; }'' @ newline \<and>
   logged (snd (build_bdzf (example_ctx \<lparr> opcode_name = ''bdzf'', operands = [1, 0x82002000] \<rparr> 0x82001080))) =
     [(LogWarn, ''bdzf at 82001080 branches outside function to 82002000'')]"
    using branch_target_emission [of example_ext
        "example_ctx \<lparr> opcode_name = ''bdzf'', operands = [1, 0x82002000] \<rparr> 0x82001080" 0 "''''" "''''"]
    by (simp add: ev)
  show ?thesis using a b c d e f g h i j by simp
qed

text \<open>
  The claim as stated fails for \<open>bdnz\<close> and for \<open>bl\<close>. With the target
  \<open>0x82002000\<close> outside the function, what \<open>bdnz\<close> emits holds no call to the target,
  and what \<open>bl\<close> emits for the target as a known function is the call with no
  \<open>return;\<close> after it; \<open>build_b\<close> for the same target emits the call and \<open>return;\<close>.
\<close>

theorem bdnz_outside_counterexample:
  "out (emit_function_call example_ext
          (example_ctx \<lparr> opcode_name = ''bdnz'', operands = [0x82002000] \<rparr> 0x82001080) 0x82002000) =
     tab @ ''sub_82002000(ctx, base);'' @ newline \<and>
   out (snd (build_bdnz (example_ctx \<lparr> opcode_name = ''bdnz'', operands = [0x82002000] \<rparr> 0x82001080))) =
     tab @ ''--ctx.ctr.u64;'' @ newline @
     tab @ ''if (ctx.ctr.u32 != 0) { /* branch to 0x82002000 outside function */ return; }'' @ newline \<and>
   \<not> spec_call_then_return
       (out (emit_function_call example_ext
          (example_ctx \<lparr> opcode_name = ''bdnz'', operands = [0x82002000] \<rparr> 0x82001080) 0x82002000))
       (out (snd (build_bdnz (example_ctx \<lparr> opcode_name = ''bdnz'', operands = [0x82002000] \<rparr> 0x82001080)))) \<and>
   out (snd (build_bl example_graph_ext (example_ctx \<lparr> opcode_name = ''bl'', operands = [0x82002000] \<rparr> 0x82001080))) =
     tab @ ''ctx.lr = 0x82001084;'' @ newline @ tab @ ''sub_82002000(ctx, base);'' @ newline \<and>
   \<not> spec_call_then_return
       (out (emit_function_call example_graph_ext
          (example_ctx \<lparr> opcode_name = ''bl'', operands = [0x82002000] \<rparr> 0x82001080) 0x82002000))
       (out (snd (build_bl example_graph_ext (example_ctx \<lparr> opcode_name = ''bl'', operands = [0x82002000] \<rparr> 0x82001080)))) \<and>
   spec_call_then_return
       (out (emit_function_call example_ext
          (example_ctx \<lparr> opcode_name = ''b'', operands = [0x82002000] \<rparr> 0x82001080) 0x82002000))
       (out (snd (build_b example_ext (example_ctx \<lparr> opcode_name = ''b'', operands = [0x82002000] \<rparr> 0x82001080))))"
proof -
  have call: "\<And>i. out (emit_function_call example_ext (example_ctx i 0x82001080) 0x82002000) =
     tab @ ''sub_82002000(ctx, base);'' @ newline"
    by (simp add: example_ext_def example_ctx_def println_def fmt_eval)
  have gcall: "\<And>i. out (emit_function_call example_graph_ext (example_ctx i 0x82001080) 0x82002000) =
     tab @ ''sub_82002000(ctx, base);'' @ newline"
    by (simp add: example_graph_ext_def example_ctx_def println_def fmt_eval)
  have bdnz: "out (snd (build_bdnz (example_ctx \<lparr> opcode_name = ''bdnz'', operands = [0x82002000] \<rparr> 0x82001080))) =
     tab @ ''--ctx.ctr.u64;'' @ newline @
     tab @ ''if (ctx.ctr.u32 != 0) { /* branch to 0x82002000 outside function */ return; }'' @ newline"
    by (simp add: build_bdnz_def emitBranchWithBoundsCheck_def decrement_ctr_def ctr_def
        println_def log_msg_def Let_def example_ctx_def example_fn_def default_config_def
        operand_def fmt_eval)
  have bl: "out (snd (build_bl example_graph_ext (example_ctx \<lparr> opcode_name = ''bl'', operands = [0x82002000] \<rparr> 0x82001080))) =
     tab @ ''ctx.lr = 0x82001084;'' @ newline @ tab @ ''sub_82002000(ctx, base);'' @ newline"
    by (simp add: build_bl_def example_graph_ext_def example_ctx_def default_config_def
        operand_def println_def Let_def fmt_eval)
  have b: "out (snd (build_b example_ext (example_ctx \<lparr> opcode_name = ''b'', operands = [0x82002000] \<rparr> 0x82001080))) =
     tab @ ''sub_82002000(ctx, base);'' @ newline @ tab @ ''return;'' @ newline"
    by (simp add: build_b_def example_ext_def example_ctx_def example_fn_def operand_def
        println_def log_msg_def Let_def fmt_eval)
  have n: "\<not> spec_call_then_return (tab @ ''sub_82002000(ctx, base);'' @ newline)
     (tab @ ''--ctx.ctr.u64;'' @ newline @
      tab @ ''if (ctx.ctr.u32 != 0) { /* branch to 0x82002000 outside function */ return; }'' @ newline)"
    by code_simp
  have m: "\<not> spec_call_then_return (tab @ ''sub_82002000(ctx, base);'' @ newline)
     (tab @ ''ctx.lr = 0x82001084;'' @ newline @ tab @ ''sub_82002000(ctx, base);'' @ newline)"
    by code_simp
  have p: "spec_call_then_return (tab @ ''sub_82002000(ctx, base);'' @ newline)
     (tab @ ''sub_82002000(ctx, base);'' @ newline @ tab @ ''return;'' @ newline)"
    by code_simp
  show ?thesis by (simp only: call gcall bdnz bl b n m p) simp
qed

end
